theory Spec2Isabelle
  imports Main "HOL-Library.Log_Nat"
begin

section \<open>Python values, errors and containers\<close>

text \<open>
  The adapter of \<^verbatim>\<open>pyexchange/dydx.py\<close> reshapes the JSON payloads of the exchange
  client. A payload is a dynamically typed value; every subscript, conversion and
  assertion of the source can raise, and each raise is a branch of the model.
  \<open>ClientError\<close> stands for whatever the exchange client raises, \<open>NotModelled\<close> for
  an input on which this model does not describe Python (it is named where it occurs).
\<close>

datatype pyerr =
    KeyError | TypeError | ValueError | OverflowError | AttributeError
  | AssertionError | InvalidOperation | ClientError string | NotModelled

text \<open>
  A Python float. \<open>Finite x\<close> carries the exact rational value of a binary64 number;
  the sign of zero is not represented (no result of the adapter depends on it).
\<close>

datatype pyfloat = Finite rat | PosInf | NegInf | NaN

datatype wad = Wad int

datatype pyval =
    PNone
  | PBool bool
  | PInt int
  | PFloat pyfloat
  | PStr string
  | PList "pyval list"
  | PDict "(string \<times> pyval) list"
  | PWad wad

definition py_bind :: "pyerr + 'a \<Rightarrow> ('a \<Rightarrow> pyerr + 'b) \<Rightarrow> pyerr + 'b" where
  "py_bind r f = (case r of Inl e \<Rightarrow> Inl e | Inr v \<Rightarrow> f v)"

text \<open>\<^verbatim>\<open>v[k]\<close> with a string key: only a dict supports it.\<close>

definition py_getitem :: "pyval \<Rightarrow> string \<Rightarrow> pyerr + pyval" where
  "py_getitem v k =
     (case v of
        PDict kvs \<Rightarrow> (case map_of kvs k of None \<Rightarrow> Inl KeyError | Some x \<Rightarrow> Inr x)
      | _ \<Rightarrow> Inl TypeError)"

text \<open>
  \<^verbatim>\<open>d[k] = v\<close> on a dict keeps the position of an existing key and appends a new one
  (dicts keep insertion order).
\<close>

fun dict_set :: "(string \<times> pyval) list \<Rightarrow> string \<Rightarrow> pyval \<Rightarrow> (string \<times> pyval) list" where
  "dict_set [] k v = [(k, v)]"
| "dict_set ((k', v') # kvs) k v =
     (if k' = k then (k, v) # kvs else (k', v') # dict_set kvs k v)"

definition py_setitem :: "pyval \<Rightarrow> string \<Rightarrow> pyval \<Rightarrow> pyerr + pyval" where
  "py_setitem d k v =
     (case d of PDict kvs \<Rightarrow> Inr (PDict (dict_set kvs k v)) | _ \<Rightarrow> Inl TypeError)"

text \<open>\<^verbatim>\<open>d.items()\<close>: an attribute of dicts only.\<close>

definition py_items :: "pyval \<Rightarrow> pyerr + (string \<times> pyval) list" where
  "py_items v = (case v of PDict kvs \<Rightarrow> Inr kvs | _ \<Rightarrow> Inl AttributeError)"

text \<open>
  \<^verbatim>\<open>iter(v)\<close>, as \<^verbatim>\<open>filter\<close> and \<^verbatim>\<open>list\<close> call it: a list yields its elements, a
  dict its keys, a string its characters; anything else is not iterable.
\<close>

definition py_iter :: "pyval \<Rightarrow> pyerr + pyval list" where
  "py_iter v =
     (case v of
        PList xs \<Rightarrow> Inr xs
      | PDict kvs \<Rightarrow> Inr (map (\<lambda>kv. PStr (fst kv)) kvs)
      | PStr s \<Rightarrow> Inr (map (\<lambda>c. PStr [c]) s)
      | _ \<Rightarrow> Inl TypeError)"

section \<open>Numbers\<close>

subsection \<open>Rounding\<close>

definition round_half_even :: "rat \<Rightarrow> int" where
  "round_half_even x =
     (let f = \<lfloor>x\<rfloor>; r = x - of_int f
      in if r < 1 / 2 then f else if 1 / 2 < r then f + 1 else if even f then f else f + 1)"

text \<open>Truncation toward zero, as \<^verbatim>\<open>int(x)\<close> and \<^verbatim>\<open>ROUND_DOWN\<close> do.\<close>

definition trunc :: "rat \<Rightarrow> int" where
  "trunc x = (if 0 \<le> x then \<lfloor>x\<rfloor> else - \<lfloor>- x\<rfloor>)"

text \<open>
  For \<open>0 < x\<close> and a base \<open>1 < B\<close>: the \<open>e\<close> with \<open>B powi e \<le> x < B powi (e + 1)\<close>,
  from the digit counts of the numerator and the denominator.
\<close>

definition floorlog_rat :: "nat \<Rightarrow> rat \<Rightarrow> int" where
  "floorlog_rat B x =
     (case quotient_of x of (a, b) \<Rightarrow>
        let k = int (floorlog B (nat a)) - int (floorlog B (nat b))
        in if x < of_nat B powi k then k - 1 else k)"

definition floorlog2 :: "rat \<Rightarrow> int" where
  "floorlog2 x = floorlog_rat 2 x"

definition floorlog10 :: "rat \<Rightarrow> int" where
  "floorlog10 x = floorlog_rat 10 x"

subsection \<open>binary64 arithmetic\<close>

text \<open>
  Round to nearest, ties to even, with 53 significant bits, gradual underflow below
  \<open>2 powi (-1022)\<close> and overflow to infinity from \<open>2 ^ 1024\<close> on.
\<close>

definition round_double :: "rat \<Rightarrow> pyfloat" where
  "round_double x =
     (if x = 0 then Finite 0
      else
        let q = max (floorlog2 \<bar>x\<bar> - 52) (- 1074);
            r = of_int (round_half_even (x / 2 powi q)) * 2 powi q
        in if 2 ^ 1024 \<le> r then PosInf else if r \<le> - (2 ^ 1024) then NegInf else Finite r)"

definition is_double :: "rat \<Rightarrow> bool" where
  "is_double x = (round_double x = Finite x)"

text \<open>\<^verbatim>\<open>a * b\<close> on floats: never raises.\<close>

fun fmul :: "pyfloat \<Rightarrow> pyfloat \<Rightarrow> pyfloat" where
  "fmul (Finite x) (Finite y) = round_double (x * y)"
| "fmul NaN _ = NaN"
| "fmul _ NaN = NaN"
| "fmul (Finite x) PosInf = (if x = 0 then NaN else if 0 < x then PosInf else NegInf)"
| "fmul (Finite x) NegInf = (if x = 0 then NaN else if 0 < x then NegInf else PosInf)"
| "fmul PosInf (Finite y) = (if y = 0 then NaN else if 0 < y then PosInf else NegInf)"
| "fmul NegInf (Finite y) = (if y = 0 then NaN else if 0 < y then NegInf else PosInf)"
| "fmul PosInf PosInf = PosInf"
| "fmul PosInf NegInf = NegInf"
| "fmul NegInf PosInf = NegInf"
| "fmul NegInf NegInf = PosInf"

text \<open>\<^verbatim>\<open>f < 0\<close> on a float: false for NaN.\<close>

fun float_is_negative :: "pyfloat \<Rightarrow> bool" where
  "float_is_negative (Finite x) = (x < 0)"
| "float_is_negative NegInf = True"
| "float_is_negative PosInf = False"
| "float_is_negative NaN = False"

text \<open>Conversion of a Python int to a float, as mixed arithmetic and \<^verbatim>\<open>float(n)\<close> do.\<close>

definition int_to_float :: "int \<Rightarrow> pyerr + pyfloat" where
  "int_to_float n =
     (case round_double (of_int n) of Finite r \<Rightarrow> Inr (Finite r) | _ \<Rightarrow> Inl OverflowError)"

text \<open>\<^verbatim>\<open>int(f)\<close> on a float.\<close>

fun int_of_float :: "pyfloat \<Rightarrow> pyerr + int" where
  "int_of_float (Finite x) = Inr (trunc x)"
| "int_of_float NaN = Inl ValueError"
| "int_of_float _ = Inl OverflowError"

text \<open>
  The right operand \<^verbatim>\<open>10**k\<close> of a float product, already converted to a float.
  For \<open>0 \<le> k\<close> Python computes the int \<open>10 ^ k\<close> and the product converts it (an
  OverflowError when it does not fit). For \<open>k < 0\<close> Python computes the float
  \<^verbatim>\<open>pow(10.0, k)\<close>, modelled as the correctly rounded power; converting an exponent
  beyond the float range raises OverflowError.
\<close>

definition py_pow10 :: "int \<Rightarrow> pyerr + pyfloat" where
  "py_pow10 k =
     (if 0 \<le> k then int_to_float (10 ^ nat k)
      else py_bind (int_to_float k) (\<lambda>_. Inr (round_double (10 powi k))))"

subsection \<open>Numeric strings\<close>

definition is_digit :: "char \<Rightarrow> bool" where
  "is_digit c = (48 \<le> (of_char c :: nat) \<and> (of_char c :: nat) \<le> 57)"

text \<open>
  White space: \<^verbatim>\<open>float\<close> and \<^verbatim>\<open>int\<close> skip the six characters of C's \<^verbatim>\<open>isspace\<close>;
  \<^verbatim>\<open>str.strip\<close>, which \<^verbatim>\<open>Decimal\<close> calls, also skips the four separators
  \<^verbatim>\<open>\x1c\<close> to \<^verbatim>\<open>\x1f\<close>.
\<close>

definition is_space :: "char \<Rightarrow> bool" where
  "is_space c = (let n = (of_char c :: nat) in (9 \<le> n \<and> n \<le> 13) \<or> n = 32)"

definition is_str_space :: "char \<Rightarrow> bool" where
  "is_str_space c =
     (let n = (of_char c :: nat) in (9 \<le> n \<and> n \<le> 13) \<or> (28 \<le> n \<and> n \<le> 32))"

definition to_lower :: "char \<Rightarrow> char" where
  "to_lower c =
     (let n = (of_char c :: nat) in if 65 \<le> n \<and> n \<le> 90 then char_of (n + 32) else c)"

definition strip :: "(char \<Rightarrow> bool) \<Rightarrow> string \<Rightarrow> string" where
  "strip sp s = rev (dropWhile sp (rev (dropWhile sp s)))"

definition digits_value :: "string \<Rightarrow> nat" where
  "digits_value ds = foldl (\<lambda>a c. 10 * a + ((of_char c :: nat) - 48)) 0 ds"

text \<open>
  \<^verbatim>\<open>float\<close> and \<^verbatim>\<open>int\<close> accept a single underscore between two digits. The function
  removes them, or fails on an underscore that is not between digits. The first
  argument is the previous character.
\<close>

fun drop_underscores :: "char option \<Rightarrow> string \<Rightarrow> string option" where
  "drop_underscores prev [] = (if prev = Some CHR ''_'' then None else Some [])"
| "drop_underscores prev (c # cs) =
     (if c = CHR ''_'' then
        (case prev of
           Some p \<Rightarrow> if is_digit p then drop_underscores (Some c) cs else None
         | None \<Rightarrow> None)
      else if prev = Some CHR ''_'' \<and> \<not> is_digit c then None
      else map_option ((#) c) (drop_underscores (Some c) cs))"

text \<open>An optional sign: \<open>(negative, rest)\<close>.\<close>

fun split_sign :: "string \<Rightarrow> bool \<times> string" where
  "split_sign [] = (False, [])"
| "split_sign (c # cs) =
     (if c = CHR ''-'' then (True, cs) else if c = CHR ''+'' then (False, cs) else (False, c # cs))"

text \<open>The exponent part of a decimal numeral: empty, or \<^verbatim>\<open>e\<close> with a signed integer.\<close>

definition parse_exponent :: "string \<Rightarrow> int option" where
  "parse_exponent s =
     (case s of
        [] \<Rightarrow> Some 0
      | c # t \<Rightarrow>
          if to_lower c = CHR ''e'' then
            (case split_sign t of (neg, ds) \<Rightarrow>
               if ds \<noteq> [] \<and> list_all is_digit ds
               then Some (if neg then - int (digits_value ds) else int (digits_value ds))
               else None)
          else None)"

text \<open>
  An unsigned decimal numeral \<^verbatim>\<open>digits [. digits] [e [sign] digits]\<close> with at least one
  digit before the exponent: the coefficient \<open>c\<close> and the exponent \<open>e\<close> of its value
  \<open>c * 10 powi e\<close>. The exponent counts the fraction digits as written, as the
  exponent of a \<^verbatim>\<open>Decimal\<close> does.
\<close>

definition parse_decimal :: "string \<Rightarrow> (nat \<times> int) option" where
  "parse_decimal s =
     (let ip = takeWhile is_digit s; r1 = dropWhile is_digit s;
          fp = (case r1 of [] \<Rightarrow> [] | c # t \<Rightarrow> if c = CHR ''.'' then takeWhile is_digit t else []);
          r2 = (case r1 of [] \<Rightarrow> [] | c # t \<Rightarrow> if c = CHR ''.'' then dropWhile is_digit t else r1)
      in if ip = [] \<and> fp = [] then None
         else map_option (\<lambda>e. (digits_value (ip @ fp), e - int (length fp))) (parse_exponent r2))"

text \<open>
  The exact value that a numeric string denotes, if it is a decimal numeral: white space
  around it is skipped, then underscores between digits, then the sign.
\<close>

definition decimal_value :: "string \<Rightarrow> rat option" where
  "decimal_value s =
     (case drop_underscores None (strip is_space s) of
        None \<Rightarrow> None
      | Some t \<Rightarrow>
          (case split_sign t of (neg, body) \<Rightarrow>
             map_option (\<lambda>(c, e). (if neg then - 1 else 1) * of_nat c * 10 powi e)
               (parse_decimal body)))"

text \<open>
  \<^verbatim>\<open>float(s)\<close> on a string (of ASCII characters): the float nearest to the value of a
  decimal numeral; what is not a numeral may be an infinity or a NaN, in any case of
  letters.
\<close>

definition float_of_string :: "string \<Rightarrow> pyerr + pyfloat" where
  "float_of_string s =
     (case decimal_value s of
        Some x \<Rightarrow> Inr (round_double x)
      | None \<Rightarrow>
          (case drop_underscores None (strip is_space s) of
             None \<Rightarrow> Inl ValueError
           | Some t \<Rightarrow>
               (case split_sign t of (neg, body) \<Rightarrow>
                  let w = map to_lower body in
                  if w = ''inf'' \<or> w = ''infinity'' then Inr (if neg then NegInf else PosInf)
                  else if w = ''nan'' then Inr NaN
                  else Inl ValueError)))"

text \<open>
  \<^verbatim>\<open>int(s)\<close> on a string (of ASCII characters), base ten. (The limit that recent
  versions of Python put on the number of digits is not modelled.)
\<close>

definition int_of_string :: "string \<Rightarrow> pyerr + int" where
  "int_of_string s =
     (case drop_underscores None (strip is_space s) of
        None \<Rightarrow> Inl ValueError
      | Some t \<Rightarrow>
          (case split_sign t of (neg, ds) \<Rightarrow>
             if ds \<noteq> [] \<and> list_all is_digit ds
             then Inr (if neg then - int (digits_value ds) else int (digits_value ds))
             else Inl ValueError))"

text \<open>\<^verbatim>\<open>float(v)\<close> and \<^verbatim>\<open>int(v)\<close> on a payload value.\<close>

definition py_float :: "pyval \<Rightarrow> pyerr + pyfloat" where
  "py_float v =
     (case v of
        PFloat f \<Rightarrow> Inr f
      | PInt n \<Rightarrow> int_to_float n
      | PBool b \<Rightarrow> Inr (Finite (if b then 1 else 0))
      | PStr s \<Rightarrow> float_of_string s
      | _ \<Rightarrow> Inl TypeError)"

definition py_int :: "pyval \<Rightarrow> pyerr + int" where
  "py_int v =
     (case v of
        PInt n \<Rightarrow> Inr n
      | PBool b \<Rightarrow> Inr (if b then 1 else 0)
      | PFloat f \<Rightarrow> int_of_float f
      | PStr s \<Rightarrow> int_of_string s
      | _ \<Rightarrow> Inl TypeError)"


subsection \<open>Shortest round-trip representation\<close>

text \<open>
  \<^verbatim>\<open>str(f)\<close> of a finite float is the decimal numeral with the fewest significant
  digits (at most 17) that converts back to \<open>f\<close>, the closest to \<open>f\<close> if there are
  several. \<open>repr_candidate x n\<close> is that numeral's value among those of \<open>n\<close> digits, for
  \<open>0 < x\<close>: only the two \<open>n\<close>-digit neighbours of \<open>x\<close> can qualify.
\<close>

definition repr_candidate :: "rat \<Rightarrow> nat \<Rightarrow> rat option" where
  "repr_candidate x n =
     (let s = 10 powi (floorlog10 x - int n + 1);
          k = \<lfloor>x / s\<rfloor>;
          lo = of_int k * s;
          hi = lo + s
      in if round_double lo = Finite x
            \<and> (x - lo < hi - x \<or> (x - lo = hi - x \<and> even k) \<or> round_double hi \<noteq> Finite x)
         then Some lo
         else if round_double hi = Finite x then Some hi
         else None)"

fun repr_search :: "rat \<Rightarrow> nat \<Rightarrow> nat \<Rightarrow> rat" where
  "repr_search x n 0 = x"
| "repr_search x n (Suc fuel) =
     (case repr_candidate x n of Some c \<Rightarrow> c | None \<Rightarrow> repr_search x (Suc n) fuel)"

text \<open>The value of \<^verbatim>\<open>Decimal(str(f))\<close> for a finite float \<open>f\<close>.\<close>

definition repr_value :: "rat \<Rightarrow> rat" where
  "repr_value x =
     (if x = 0 then 0
      else if x < 0 then - repr_search (- x) 1 17
      else repr_search x 1 17)"

subsection \<open>Decimal arithmetic and the fixed-point type\<close>

text \<open>
  A finite \<^verbatim>\<open>Decimal\<close> is modelled by its rational value. Arithmetic in the default
  context rounds the exact result to 28 significant digits, ties to even. (The
  exponent limits of the context, \<open>\<plusminus>999999\<close>, are far from every value the adapter
  can produce.)
\<close>

definition dec_round_prec :: "nat \<Rightarrow> rat \<Rightarrow> rat" where
  "dec_round_prec p x =
     (if x = 0 then 0
      else let s = 10 powi (floorlog10 \<bar>x\<bar> - int p + 1)
           in of_int (round_half_even (x / s)) * s)"

definition dec_mul :: "rat \<Rightarrow> rat \<Rightarrow> rat" where
  "dec_mul x y = dec_round_prec 28 (x * y)"

text \<open>
  \<^verbatim>\<open>eth_utils.from_wei(number, unit)\<close>: zero stays zero, a number outside
  \<open>0 .. 2 ^ 256 - 1\<close> is refused, any other is divided exactly by the unit
  (the library divides with 999 digits of precision). The table lists the units by their
  count of decimals.
\<close>

definition units :: "string \<Rightarrow> nat option" where
  "units u =
     map_of [(''wei'', 0), (''kwei'', 3), (''mwei'', 6), (''gwei'', 9), (''szabo'', 12),
             (''finney'', 15), (''ether'', 18)] u"

definition from_wei :: "int \<Rightarrow> string \<Rightarrow> pyerr + rat" where
  "from_wei number unit =
     (case units (map to_lower unit) of
        None \<Rightarrow> Inl ValueError
      | Some k \<Rightarrow>
          if number = 0 then Inr 0
          else if number < 0 \<or> 2 ^ 256 - 1 < number then Inl ValueError
          else Inr (of_int number / 10 ^ k))"

text \<open>
  \<^verbatim>\<open>pymaker.Wad.from_number(number)\<close>: \<^verbatim>\<open>Decimal(str(number)) * Decimal(10) ** 18\<close> in the
  default context, then cut to an integer toward zero (\<^verbatim>\<open>quantize(1)\<close> under
  \<^verbatim>\<open>ROUND_DOWN\<close> with 1000 digits). A \<open>Wad n\<close> stands for the number \<open>n / 10 ^ 18\<close>.
\<close>

fun wad_value :: "wad \<Rightarrow> rat" where
  "wad_value (Wad n) = of_int n / 10 ^ 18"

definition quantize_limit :: int where
  "quantize_limit = 10 ^ 1000"

definition wad_from_decimal :: "rat \<Rightarrow> pyerr + wad" where
  "wad_from_decimal x =
     (let n = trunc (dec_mul x (10 ^ 18))
      in if quantize_limit \<le> \<bar>n\<bar> then Inl InvalidOperation else Inr (Wad n))"

fun wad_from_float :: "pyfloat \<Rightarrow> pyerr + wad" where
  "wad_from_float (Finite x) = wad_from_decimal (repr_value x)"
| "wad_from_float NaN = Inl ValueError"
| "wad_from_float _ = Inl InvalidOperation"

text \<open>
  \<^verbatim>\<open>round(Decimal(f), n)\<close> on a float \<open>f\<close>: the exact value of \<open>f\<close>, quantized to \<open>n\<close>
  decimal places, ties to even, in the default context. The context refuses a result of
  more than 28 digits and an exponent below \<open>- 1000026\<close>; a NaN passes through.
\<close>

datatype pydec = Dec rat | DecNaN


text \<open>
  \<^verbatim>\<open>abs(Decimal(v).as_tuple().exponent)\<close>. The exchange reports the tick size as a
  string, and only a string is modelled. \<^verbatim>\<open>Decimal\<close> strips white space and drops every
  underscore; an infinity or a NaN has a letter for its exponent, on which \<^verbatim>\<open>abs\<close>
  raises a TypeError.
\<close>

definition is_nan_literal :: "string \<Rightarrow> bool" where
  "is_nan_literal w =
     ((take 3 w = ''nan'' \<and> list_all is_digit (drop 3 w))
      \<or> (take 4 w = ''snan'' \<and> list_all is_digit (drop 4 w)))"

definition tick_size_of :: "pyval \<Rightarrow> pyerr + nat" where
  "tick_size_of v =
     (case v of
        PStr s \<Rightarrow>
          (case split_sign (filter (\<lambda>c. c \<noteq> CHR ''_'') (strip is_str_space s)) of (neg, body) \<Rightarrow>
             let w = map to_lower body in
             if w = ''inf'' \<or> w = ''infinity'' \<or> is_nan_literal w then Inl TypeError
             else
               (case parse_decimal body of
                  None \<Rightarrow> Inl InvalidOperation
                | Some (c, e) \<Rightarrow> Inr (nat \<bar>e\<bar>)))
      | _ \<Rightarrow> Inl NotModelled)"

section \<open>The adapter\<close>

subsection \<open>Normalized records\<close>

text \<open>
  Modelled from the spec: the classes \<^verbatim>\<open>Order\<close> and \<^verbatim>\<open>Trade\<close> of \<^verbatim>\<open>pyexchange/model.py\<close>,
  which the adapter imports, are plain records of an id, a creation time in integer
  seconds, a trading pair, a side, a price and an amount; the last two are fixed-point
  numbers. The id and a trade's pair are stored as the payload gives them.
\<close>

record order =
  order_id :: pyval
  order_timestamp :: int
  order_pair :: string
  order_is_sell :: bool
  order_price :: wad
  order_amount :: wad

record trade =
  trade_id :: pyval
  trade_timestamp :: int
  trade_pair :: pyval
  trade_is_sell :: bool
  trade_price :: wad
  trade_amount :: wad

subsection \<open>What the adapter is given\<close>

text \<open>
  Library code the adapter calls and no claim depends on is a parameter:
  \<open>parse_timestamp v\<close> is \<^verbatim>\<open>int(dateutil.parser.parse(v).timestamp())\<close>,
  \<open>token_to_wei\<close> is \<^verbatim>\<open>dydx.util.token_to_wei\<close>, and the four market numbers are the
  constants of \<^verbatim>\<open>dydx.constants\<close>.
\<close>

record dydx_env =
  parse_timestamp :: "pyval \<Rightarrow> pyerr + int"
  token_to_wei :: "pyfloat \<Rightarrow> pyval \<Rightarrow> pyerr + int"
  MARKET_ETH :: int
  MARKET_SAI :: int
  MARKET_USDC :: int
  MARKET_DAI :: int

text \<open>
  The calls the adapter makes on the exchange client, with their arguments as the
  source passes them. The client answers a call with a payload or raises.
\<close>

datatype request =
    GetMyBalances
  | GetMyOrders "string list" "nat option" "string option"
  | GetFills "string list" nat
  | GetMyFills "string list"
  | PlaceOrder string string pydec int bool bool
  | CancelOrder string

text \<open>
  The state of a \<^verbatim>\<open>DydxApi\<close> object: the client and the market metadata cached at
  construction. Every method returns its result (or the error it raises) together with
  the calls it made on the client, in order.
\<close>

record dydx_api =
  client :: "request \<Rightarrow> pyerr + pyval"
  market_info :: pyval

subsection \<open>Iteration\<close>

text \<open>
  \<^verbatim>\<open>list(map(f, filter(p, xs)))\<close>: both builtins are lazy, so the predicate of an item
  runs after the conversion of the items before it, and the first error ends the loop.
\<close>

fun py_filter_map ::
  "(pyval \<Rightarrow> pyerr + bool) \<Rightarrow> (pyval \<Rightarrow> pyerr + 'a) \<Rightarrow> pyval list \<Rightarrow> pyerr + 'a list" where
  "py_filter_map p f [] = Inr []"
| "py_filter_map p f (x # xs) =
     py_bind (p x) (\<lambda>keep.
       if keep
       then py_bind (f x) (\<lambda>y. py_bind (py_filter_map p f xs) (\<lambda>ys. Inr (y # ys)))
       else py_filter_map p f xs)"

text \<open>\<^verbatim>\<open>list(map(f, xs))\<close>.\<close>

fun py_map :: "('b \<Rightarrow> pyerr + 'a) \<Rightarrow> 'b list \<Rightarrow> pyerr + 'a list" where
  "py_map f [] = Inr []"
| "py_map f (x # xs) = py_bind (f x) (\<lambda>y. py_bind (py_map f xs) (\<lambda>ys. Inr (y # ys)))"

text \<open>\<^verbatim>\<open>lambda item: item[key] == s\<close>: comparing with a string never raises.\<close>

definition field_equals :: "string \<Rightarrow> string \<Rightarrow> pyval \<Rightarrow> pyerr + bool" where
  "field_equals key s item = py_bind (py_getitem item key) (\<lambda>v. Inr (v = PStr s))"

subsection \<open>Record translation\<close>

text \<open>
  The price of both translations:
  \<^verbatim>\<open>Wad.from_number(float(item["price"]) * 10**(18 - int(market_info["quoteCurrency"]["decimals"])))\<close>.
\<close>

definition scaled_price :: "pyval \<Rightarrow> pyval \<Rightarrow> pyerr + wad" where
  "scaled_price item market =
     py_bind (py_getitem market ''quoteCurrency'') (\<lambda>quote.
     py_bind (py_getitem quote ''decimals'') (\<lambda>dv.
     py_bind (py_int dv) (\<lambda>d.
     let decimal_exponent = 18 - d in
     py_bind (py_getitem item ''price'') (\<lambda>pv.
     py_bind (py_float pv) (\<lambda>p.
     py_bind (py_pow10 decimal_exponent) (\<lambda>scale.
     wad_from_float (fmul p scale)))))))"

text \<open>The amount of both: \<^verbatim>\<open>Wad.from_number(from_wei(abs(int(float(v))), "ether"))\<close>.\<close>

definition wei_amount :: "pyval \<Rightarrow> pyerr + wad" where
  "wei_amount v =
     py_bind (py_float v) (\<lambda>f.
     py_bind (int_of_float f) (\<lambda>n.
     py_bind (from_wei \<bar>n\<bar> ''ether'') (\<lambda>x.
     wad_from_decimal x)))"

text \<open>\<^verbatim>\<open>DydxOrder.from_message(item, pair, market_info)\<close>.\<close>

definition order_from_message :: "dydx_env \<Rightarrow> pyval \<Rightarrow> string \<Rightarrow> pyval \<Rightarrow> pyerr + order" where
  "order_from_message env item pair market =
     py_bind (scaled_price item market) (\<lambda>price.
     py_bind (py_getitem item ''id'') (\<lambda>oid.
     py_bind (py_getitem item ''createdAt'') (\<lambda>created.
     py_bind (parse_timestamp env created) (\<lambda>ts.
     py_bind (py_getitem item ''side'') (\<lambda>side.
     py_bind (py_getitem item ''baseAmount'') (\<lambda>base.
     py_bind (wei_amount base) (\<lambda>amount.
     Inr \<lparr>order_id = oid, order_timestamp = ts, order_pair = pair,
          order_is_sell = (side = PStr ''SELL''), order_price = price,
          order_amount = amount\<rparr>)))))))"

text \<open>\<^verbatim>\<open>DydxTrade.from_message(trade, pair, market_info)\<close>.\<close>

definition trade_from_message :: "dydx_env \<Rightarrow> pyval \<Rightarrow> string \<Rightarrow> pyval \<Rightarrow> pyerr + trade" where
  "trade_from_message env item pair market =
     py_bind (scaled_price item market) (\<lambda>price.
     py_bind (py_getitem item ''uuid'') (\<lambda>tid.
     py_bind (py_getitem item ''createdAt'') (\<lambda>created.
     py_bind (parse_timestamp env created) (\<lambda>ts.
     py_bind (py_getitem item ''market'') (\<lambda>market_name.
     py_bind (py_getitem item ''side'') (\<lambda>side.
     py_bind (py_getitem item ''amount'') (\<lambda>amt.
     py_bind (wei_amount amt) (\<lambda>amount.
     Inr \<lparr>trade_id = tid, trade_timestamp = ts, trade_pair = market_name,
          trade_is_sell = (side = PStr ''SELL''), trade_price = price,
          trade_amount = amount\<rparr>))))))))"

subsection \<open>Balances\<close>

text \<open>\<^verbatim>\<open>DydxApi._convert_balance_to_wad(balance, decimals)\<close>; the dict is updated in place.\<close>

definition convert_balance_to_wad :: "pyval \<Rightarrow> int \<Rightarrow> pyerr + pyval" where
  "convert_balance_to_wad balance decimals =
     py_bind (py_getitem balance ''wei'') (\<lambda>w.
     py_bind (py_float w) (\<lambda>wei_balance.
     let is_negative = float_is_negative wei_balance in
     py_bind (int_of_float wei_balance) (\<lambda>n.
     py_bind (from_wei \<bar>n\<bar> ''ether'') (\<lambda>as_ether.
     py_bind (if decimals = 6 then from_wei \<bar>n\<bar> ''mwei'' else Inr as_ether) (\<lambda>converted.
     let signed = (if is_negative then dec_mul converted (- 1) else converted) in
     py_bind (wad_from_decimal signed) (\<lambda>w.
     py_setitem balance ''wad'' (PWad w)))))))"

text \<open>
  The body of the loop of \<^verbatim>\<open>DydxApi._balances_to_list\<close> for one entry of
  \<^verbatim>\<open>balances.items()\<close>: the key is a string, \<^verbatim>\<open>int(market_id)\<close> parses it.
\<close>

definition balance_entry :: "dydx_env \<Rightarrow> string \<Rightarrow> pyval \<Rightarrow> pyerr + pyval" where
  "balance_entry env market_id balance =
     py_bind (int_of_string market_id) (\<lambda>m.
       if m = MARKET_ETH env then
         py_bind (py_setitem balance ''currency'' (PStr ''ETH'')) (\<lambda>b.
           convert_balance_to_wad b 18)
       else if m = MARKET_SAI env then
         py_bind (py_setitem balance ''currency'' (PStr ''SAI'')) (\<lambda>b.
           convert_balance_to_wad b 18)
       else if m = MARKET_USDC env then
         py_bind (py_setitem balance ''currency'' (PStr ''USDC'')) (\<lambda>b.
           convert_balance_to_wad b 6)
       else if m = MARKET_DAI env then
         py_bind (py_setitem balance ''currency'' (PStr ''DAI'')) (\<lambda>b.
           convert_balance_to_wad b 18)
       else convert_balance_to_wad balance 18)"

text \<open>\<^verbatim>\<open>DydxApi._balances_to_list(balances)\<close>.\<close>

definition balances_to_list :: "dydx_env \<Rightarrow> pyval \<Rightarrow> pyerr + pyval list" where
  "balances_to_list env balances =
     py_bind (py_items balances) (\<lambda>kvs.
       py_map (\<lambda>kv. balance_entry env (fst kv) (snd kv)) kvs)"

text \<open>\<^verbatim>\<open>DydxApi.get_balances()\<close>.\<close>

definition get_balances :: "dydx_env \<Rightarrow> dydx_api \<Rightarrow> (pyerr + pyval list) \<times> request list" where
  "get_balances env api =
     (py_bind (client api GetMyBalances) (\<lambda>resp.
      py_bind (py_getitem resp ''balances'') (\<lambda>balances.
      balances_to_list env balances)),
      [GetMyBalances])"

subsection \<open>Orders and trades\<close>

text \<open>
  \<^verbatim>\<open>DydxApi.get_orders(pair)\<close>. \<^verbatim>\<open>filter\<close> asks its argument for an iterator at once,
  before the market metadata is looked up; the items are visited afterwards.
\<close>

definition get_orders :: "dydx_env \<Rightarrow> dydx_api \<Rightarrow> string \<Rightarrow> (pyerr + order list) \<times> request list" where
  "get_orders env api pair =
     (let req = GetMyOrders [pair] None None in
      (py_bind (client api req) (\<lambda>orders.
       py_bind (py_getitem orders ''orders'') (\<lambda>raw.
       py_bind (py_iter raw) (\<lambda>items.
       py_bind (py_getitem (market_info api) pair) (\<lambda>market.
       py_filter_map (field_equals ''status'' ''OPEN'')
         (\<lambda>item. order_from_message env item pair market) items)))),
       [req]))"

text \<open>\<^verbatim>\<open>DydxApi.get_trades(pair, page_number)\<close>; the page number is not used.\<close>

definition get_trades ::
  "dydx_env \<Rightarrow> dydx_api \<Rightarrow> string \<Rightarrow> int \<Rightarrow> (pyerr + trade list) \<times> request list" where
  "get_trades env api pair page_number =
     (let req = GetMyFills [pair] in
      (py_bind (client api req) (\<lambda>result.
       py_bind (py_getitem (market_info api) pair) (\<lambda>market.
       py_bind (py_getitem result ''fills'') (\<lambda>raw.
       py_bind (py_iter raw) (\<lambda>items.
       py_map (\<lambda>item. trade_from_message env item pair market) items)))),
       [req]))"

text \<open>
  \<^verbatim>\<open>DydxApi.get_all_trades(pair, page_number)\<close>: the assertion on the page number
  comes before the call on the client.
\<close>

definition get_all_trades ::
  "dydx_env \<Rightarrow> dydx_api \<Rightarrow> string \<Rightarrow> int \<Rightarrow> (pyerr + trade list) \<times> request list" where
  "get_all_trades env api pair page_number =
     (if page_number \<noteq> 1 then (Inl AssertionError, [])
      else
        let req = GetFills [pair] 100 in
        (py_bind (client api req) (\<lambda>resp.
         py_bind (py_getitem resp ''fills'') (\<lambda>raw.
         py_bind (py_iter raw) (\<lambda>items.
         py_bind (py_getitem (market_info api) pair) (\<lambda>market.
         py_filter_map (field_equals ''status'' ''CONFIRMED'')
           (\<lambda>item. trade_from_message env item pair market) items)))),
         [req]))"

subsection \<open>Placing and cancelling orders\<close>



text \<open>\<^verbatim>\<open>DydxApi.cancel_order(order_id)\<close>.\<close>

definition cancel_order :: "dydx_api \<Rightarrow> string \<Rightarrow> (pyerr + bool) \<times> request list" where
  "cancel_order api oid =
     (let req = CancelOrder oid in
      (py_bind (client api req) (\<lambda>canceled_order.
       py_bind (py_getitem canceled_order ''order'') (\<lambda>ord.
       py_bind (py_getitem ord ''id'') (\<lambda>cid.
       Inr (cid = PStr oid)))),
       [req]))"

section \<open>Example payloads\<close>

text \<open>
  Concrete inputs on which the theorems below are instantiated: an environment with
  the market numbers 0 to 3, the metadata of a market quoted in an 18-decimal asset and
  of one quoted in a 6-decimal asset, and the answers of a client.
\<close>

definition demo_env :: dydx_env where
  "demo_env =
     \<lparr>parse_timestamp = (\<lambda>v. case v of PStr s \<Rightarrow> Inr 1577836800 | _ \<Rightarrow> Inl TypeError),
      token_to_wei = (\<lambda>amount market. Inr 0),
      MARKET_ETH = 0, MARKET_SAI = 1, MARKET_USDC = 2, MARKET_DAI = 3\<rparr>"

definition market_dai :: pyval where
  "market_dai =
     PDict [(''quoteCurrency'', PDict [(''decimals'', PInt 18)]),
            (''baseCurrency'', PDict [(''soloMarketId'', PInt 0)]),
            (''minimumTickSize'', PStr ''0.01'')]"

definition market_usdc :: pyval where
  "market_usdc =
     PDict [(''quoteCurrency'', PDict [(''decimals'', PInt 6)]),
            (''baseCurrency'', PDict [(''soloMarketId'', PInt 0)]),
            (''minimumTickSize'', PStr ''0.0000000000001'')]"

definition demo_markets :: pyval where
  "demo_markets = PDict [(''WETH-DAI'', market_dai), (''WETH-USDC'', market_usdc)]"

definition raw_order :: "string \<Rightarrow> string \<Rightarrow> pyval" where
  "raw_order oid status =
     PDict [(''id'', PStr oid), (''createdAt'', PStr ''2020-01-01T00:00:00.000Z''),
            (''side'', PStr ''SELL''), (''price'', PStr ''100.0''),
            (''baseAmount'', PStr ''1000000000000000000''), (''status'', PStr status)]"

definition raw_fill :: "string \<Rightarrow> string \<Rightarrow> pyval" where
  "raw_fill uuid status =
     PDict [(''uuid'', PStr uuid), (''createdAt'', PStr ''2020-01-01T00:00:00.000Z''),
            (''market'', PStr ''DAI-WETH''), (''side'', PStr ''BUY''),
            (''price'', PStr ''100.0''), (''amount'', PStr ''1000000000000000000''),
            (''status'', PStr status)]"

definition demo_order_items :: "pyval list" where
  "demo_order_items =
     [raw_order ''a1'' ''OPEN'', raw_order ''b2'' ''FILLED'',
      raw_order ''c3'' ''CANCELED'', raw_order ''d4'' ''OPEN'']"

definition demo_fill_items :: "pyval list" where
  "demo_fill_items = [raw_fill ''f1'' ''PENDING'', raw_fill ''f2'' ''CONFIRMED'']"

definition demo_my_fill_items :: "pyval list" where
  "demo_my_fill_items = [raw_fill ''f3'' ''CONFIRMED'']"

definition demo_client :: "request \<Rightarrow> pyerr + pyval" where
  "demo_client req =
     (case req of
        GetMyBalances \<Rightarrow>
          Inr (PDict [(''balances'',
                 PDict [(''2'', PDict [(''wei'', PStr ''-1000000'')]),
                        (''7'', PDict [(''wei'', PStr ''1000000000000000000'')])])])
      | GetMyOrders markets limit before \<Rightarrow>
          Inr (PDict [(''orders'', PList demo_order_items)])
      | GetFills markets limit \<Rightarrow>
          Inr (PDict [(''fills'', PList demo_fill_items)])
      | GetMyFills markets \<Rightarrow>
          Inr (PDict [(''fills'', PList demo_my_fill_items)])
      | PlaceOrder market side price amount fill_or_kill post_only \<Rightarrow>
          Inr (PDict [(''order'', PDict [(''id'', PStr ''e5'')])])
      | CancelOrder h \<Rightarrow>
          Inr (PDict [(''order'', PDict [(''id'', PStr (if h = ''a1'' then ''a1'' else ''zz''))])]))"

definition demo_api :: dydx_api where
  "demo_api = \<lparr>client = demo_client, market_info = demo_markets\<rparr>"

text \<open>The records the translations make of the example order and fill.\<close>

definition demo_order :: "string \<Rightarrow> string \<Rightarrow> order" where
  "demo_order oid pair =
     \<lparr>order_id = PStr oid, order_timestamp = 1577836800, order_pair = pair,
      order_is_sell = True, order_price = Wad (100 * 10 ^ 18), order_amount = Wad (10 ^ 18)\<rparr>"

definition demo_trade :: "string \<Rightarrow> trade" where
  "demo_trade uuid =
     \<lparr>trade_id = PStr uuid, trade_timestamp = 1577836800, trade_pair = PStr ''DAI-WETH'',
      trade_is_sell = False, trade_price = Wad (100 * 10 ^ 18), trade_amount = Wad (10 ^ 18)\<rparr>"


section \<open>Evaluating the numeric model\<close>

text \<open>
  The logarithms and roundings are characterised by inequalities, so that a value at a
  concrete number is checked by arithmetic on numerals.
\<close>

lemma floorlog_rat_bounds:
  assumes "0 < x" "1 < B"
  shows "of_nat B powi (floorlog_rat B x) \<le> x \<and> x < of_nat B powi (floorlog_rat B x + 1)"
proof -
  obtain a b where q: "quotient_of x = (a, b)" by (cases "quotient_of x")
  then have b: "0 < b" and x: "x = of_int a / of_int b"
    using quotient_of_denom_pos quotient_of_div by auto
  from assms x b have a: "0 < a" by (simp add: zero_less_divide_iff)
  define na nb where "na = nat a" and "nb = nat b"
  have na: "0 < na" and nb: "0 < nb" using a b by (auto simp: na_def nb_def)
  have xn: "x = of_nat na / of_nat nb" using a b x by (simp add: na_def nb_def)
  define la lb where "la = floorlog B na" and "lb = floorlog B nb"
  define R :: rat where "R = of_nat B"
  have R: "1 < R" using assms by (simp add: R_def)
  have A: "B ^ (la - 1) \<le> na" "na < B ^ la"
    using floorlog_bounds[OF na assms(2)] by (auto simp: la_def)
  have Bb: "B ^ (lb - 1) \<le> nb" "nb < B ^ lb"
    using floorlog_bounds[OF nb assms(2)] by (auto simp: lb_def)
  have la1: "1 \<le> la" using na assms(2) by (simp add: la_def floorlog_def)
  have lb1: "1 \<le> lb" using nb assms(2) by (simp add: lb_def floorlog_def)
  have Ar: "R ^ (la - 1) \<le> of_nat na" "of_nat na < R ^ la"
    using A unfolding R_def
    by (metis of_nat_le_iff of_nat_power, metis of_nat_less_iff of_nat_power)
  have Br: "R ^ (lb - 1) \<le> of_nat nb" "of_nat nb < R ^ lb"
    using Bb unfolding R_def
    by (metis of_nat_le_iff of_nat_power, metis of_nat_less_iff of_nat_power)
  define k where "k = int la - int lb"
  have nbpos: "(0::rat) < of_nat nb" using nb by simp
  have Rpos: "0 < R" using R by simp
  have up: "x < R powi (k + 1)"
  proof -
    have "x < R ^ la / of_nat nb"
      unfolding xn using Ar(2) nbpos by (simp add: divide_strict_right_mono)
    also have "\<dots> \<le> R ^ la / R ^ (lb - 1)" using Br(1) Rpos by (simp add: frac_le)
    also have "\<dots> = R powi (int la - int (lb - 1))" using Rpos by (simp add: power_int_diff)
    also have "int la - int (lb - 1) = k + 1" using lb1 by (simp add: k_def)
    finally show ?thesis .
  qed
  have lo: "R powi (k - 1) \<le> x"
  proof -
    have "R powi (k - 1) = R powi (int (la - 1) - int lb)"
      using la1 by (simp add: k_def of_nat_diff algebra_simps)
    also have "\<dots> = R ^ (la - 1) / R ^ lb" using Rpos by (simp add: power_int_diff)
    also have "\<dots> \<le> of_nat na / R ^ lb" using Ar(1) Rpos by (simp add: divide_right_mono)
    also have "\<dots> \<le> of_nat na / of_nat nb" using Br(2) nbpos na by (simp add: frac_le)
    finally show ?thesis by (simp add: xn)
  qed
  have fl: "floorlog_rat B x = (if x < R powi k then k - 1 else k)"
    by (simp add: floorlog_rat_def q Let_def k_def la_def lb_def na_def nb_def R_def)
  show ?thesis
    using up lo unfolding fl R_def[symmetric] by (auto simp: not_less)
qed

lemma floorlog_rat_eqI:
  assumes "1 < B" "of_nat B powi e \<le> x" "x < of_nat B powi (e + 1)"
  shows "floorlog_rat B x = e"
proof -
  define R :: rat where "R = of_nat B"
  have R: "1 < R" using assms(1) by (simp add: R_def)
  have "0 < R powi e" using R by simp
  then have x: "0 < x" using assms(2) unfolding R_def by linarith
  define r where "r = floorlog_rat B x"
  have b: "R powi r \<le> x" "x < R powi (r + 1)"
    using floorlog_rat_bounds[OF x assms(1)] by (auto simp: r_def R_def)
  have "R powi e < R powi (r + 1)" using assms(2) b(2) unfolding R_def by linarith
  then have 1: "e < r + 1"
    by (metis R linorder_not_less power_int_increasing less_imp_le)
  have "R powi r < R powi (e + 1)" using assms(3) b(1) unfolding R_def by linarith
  then have 2: "r < e + 1"
    by (metis R linorder_not_less power_int_increasing less_imp_le)
  from 1 2 show ?thesis unfolding r_def by linarith
qed


lemma floorlog10_eqI: "10 powi e \<le> x \<Longrightarrow> x < 10 powi (e + 1) \<Longrightarrow> floorlog10 x = e"
  unfolding floorlog10_def using floorlog_rat_eqI[of 10 e x] by simp

lemma round_half_even_eqI:
  assumes "\<bar>x - of_int m\<bar> < 1 / 2"
  shows "round_half_even x = m"
proof -
  define f where "f = \<lfloor>x\<rfloor>"
  have f: "of_int f \<le> x" "x < of_int f + 1"
    using floor_correct[of x] by (simp_all add: f_def)
  from assms have "x - of_int m < 1 / 2" "- (x - of_int m) < 1 / 2"
    by (simp_all only: abs_less_iff)
  then have m: "of_int m - 1 / 2 < x" "x < of_int m + 1 / 2" by linarith+
  have "(of_int m :: rat) < of_int (f + 2)" using f m by simp
  then have 1: "m < f + 2" by (simp only: of_int_less_iff)
  have "(of_int f :: rat) < of_int (m + 1)" using f m by simp
  then have 2: "f < m + 1" by (simp only: of_int_less_iff)
  from 1 2 consider "m = f" | "m = f + 1" by linarith
  then show ?thesis
  proof cases
    case 1
    then have "x - of_int f < 1 / 2" using m by simp
    then show ?thesis
      unfolding round_half_even_def Let_def f_def[symmetric] using 1 by simp
  next
    case 2
    then have "1 / 2 < x - of_int f" using m by simp
    then show ?thesis
      unfolding round_half_even_def Let_def f_def[symmetric] using 2 by simp
  qed
qed

lemma round_half_even_of_int: "round_half_even (of_int z) = z"
  by (rule round_half_even_eqI) simp


lemma floorlog2_bounds:
  "0 < x \<Longrightarrow> 2 powi (floorlog2 x) \<le> x \<and> x < 2 powi (floorlog2 x + 1)"
  unfolding floorlog2_def using floorlog_rat_bounds[of x 2] by simp

lemma floorlog10_bounds:
  "0 < x \<Longrightarrow> 10 powi (floorlog10 x) \<le> x \<and> x < 10 powi (floorlog10 x + 1)"
  unfolding floorlog10_def using floorlog_rat_bounds[of x 10] by simp

lemma powi_less_imp_less:
  fixes R :: rat
  assumes "1 < R" "R powi a < R powi b"
  shows "a < b"
  using assms by (metis linorder_not_less power_int_increasing less_imp_le)

lemma powi_split:
  fixes R :: rat
  assumes "R \<noteq> 0" "q \<le> k"
  shows "R powi k = R ^ nat (k - q) * R powi q"
proof -
  have "R powi k = R powi ((k - q) + q)" by simp
  also have "\<dots> = R powi (k - q) * R powi q" using assms(1) by (subst power_int_add) auto
  also have "R powi (k - q) = R ^ nat (k - q)" using assms(2) by (simp add: power_int_def)
  finally show ?thesis .
qed

lemma round_double_exact:
  assumes "\<bar>m\<bar> < 2 ^ 53" "- 1074 \<le> k" "k \<le> 971"
  shows "round_double (of_int m * 2 powi k) = Finite (of_int m * 2 powi k)"
proof (cases "m = 0")
  case True
  then show ?thesis by (simp add: round_double_def)
next
  case False
  define x :: rat where "x = of_int m * 2 powi k"
  have x0: "x \<noteq> 0" using False by (simp add: x_def)
  have ax: "\<bar>x\<bar> = of_int \<bar>m\<bar> * 2 powi k" by (simp add: x_def abs_mult)
  have "(of_int \<bar>m\<bar> :: rat) < of_int (2 ^ 53)" using assms(1) by (simp only: of_int_less_iff)
  then have m53: "(of_int \<bar>m\<bar> :: rat) < 2 ^ 53" by simp
  have lt: "\<bar>x\<bar> < 2 powi (53 + k)"
  proof -
    have "\<bar>x\<bar> < 2 ^ 53 * 2 powi k" unfolding ax using m53 by (simp add: mult_strict_right_mono)
    also have "\<dots> = 2 powi (53 + k)" by (simp add: power_int_add)
    finally show ?thesis .
  qed
  define e where "e = floorlog2 \<bar>x\<bar>"
  have "2 powi e \<le> \<bar>x\<bar>" using floorlog2_bounds[of "\<bar>x\<bar>"] x0 by (simp add: e_def)
  with lt have "(2::rat) powi e < 2 powi (53 + k)" by linarith
  then have e: "e < 53 + k" by (rule powi_less_imp_less[rotated]) simp
  define q where "q = max (e - 52) (- 1074)"
  have qk: "q \<le> k" using e assms(2) by (simp add: q_def)
  have xq: "x / 2 powi q = of_int (m * 2 ^ nat (k - q))"
    unfolding x_def by (subst powi_split[of 2 q k]) (use qk in simp_all)
  have rh: "round_half_even (x / 2 powi q) = m * 2 ^ nat (k - q)"
    unfolding xq by (rule round_half_even_of_int)
  have bk: "of_int (m * 2 ^ nat (k - q)) * 2 powi q = x"
    unfolding x_def by (subst powi_split[of 2 q k]) (use qk in simp_all)
  have big: "\<bar>x\<bar> < 2 ^ 1024"
  proof -
    have "(2::rat) powi (53 + k) \<le> 2 powi 1024"
      using assms(3) by (intro power_int_increasing) auto
    with lt show ?thesis by simp
  qed
  show ?thesis
    unfolding x_def[symmetric] round_double_def Let_def e_def[symmetric] q_def[symmetric] rh bk
    using x0 big by (auto simp: abs_less_iff)
qed

lemma round_double_int:
  "\<bar>m\<bar> < 2 ^ 53 \<Longrightarrow> round_double (of_int m) = Finite (of_int m)"
  using round_double_exact[of m 0] by simp

lemma dec_round_exact:
  assumes "\<bar>c\<bar> < 10 ^ p"
  shows "dec_round_prec p (of_int c * 10 powi j) = of_int c * 10 powi j"
proof (cases "c = 0")
  case True
  then show ?thesis by (simp add: dec_round_prec_def)
next
  case False
  define x :: rat where "x = of_int c * 10 powi j"
  have x0: "x \<noteq> 0" using False by (simp add: x_def)
  have ax: "\<bar>x\<bar> = of_int \<bar>c\<bar> * 10 powi j" by (simp add: x_def abs_mult)
  have "(of_int \<bar>c\<bar> :: rat) < of_int (10 ^ p)" using assms(1) by (simp only: of_int_less_iff)
  then have cp: "(of_int \<bar>c\<bar> :: rat) < 10 ^ p" by simp
  have lt: "\<bar>x\<bar> < 10 powi (int p + j)"
  proof -
    have "\<bar>x\<bar> < 10 ^ p * 10 powi j" unfolding ax using cp by (simp add: mult_strict_right_mono)
    also have "\<dots> = 10 powi (int p + j)" by (simp add: power_int_add)
    finally show ?thesis .
  qed
  define e where "e = floorlog10 \<bar>x\<bar>"
  have "10 powi e \<le> \<bar>x\<bar>" using floorlog10_bounds[of "\<bar>x\<bar>"] x0 by (simp add: e_def)
  with lt have "(10::rat) powi e < 10 powi (int p + j)" by linarith
  then have e: "e < int p + j" by (rule powi_less_imp_less[rotated]) simp
  define q where "q = e - int p + 1"
  have qk: "q \<le> j" using e by (simp add: q_def)
  have xq: "x / 10 powi q = of_int (c * 10 ^ nat (j - q))"
    unfolding x_def by (subst powi_split[of 10 q j]) (use qk in simp_all)
  have rh: "round_half_even (x / 10 powi q) = c * 10 ^ nat (j - q)"
    unfolding xq by (rule round_half_even_of_int)
  have bk: "of_int (c * 10 ^ nat (j - q)) * 10 powi q = x"
    unfolding x_def by (subst powi_split[of 10 q j]) (use qk in simp_all)
  show ?thesis
    unfolding x_def[symmetric] dec_round_prec_def Let_def e_def[symmetric] q_def[symmetric] rh bk
    using x0 by simp
qed

lemma dec_round_int: "\<bar>c\<bar> < 10 ^ p \<Longrightarrow> dec_round_prec p (of_int c) = of_int c"
  using dec_round_exact[of c p 0] by simp

lemma trunc_of_int: "trunc (of_int z) = z"
proof -
  have "\<lfloor>- (of_int z :: rat)\<rfloor> = - z" by (simp flip: of_int_minus)
  then show ?thesis by (simp add: trunc_def)
qed

lemma small_below_quantize_limit:
  assumes "\<bar>n\<bar> < 10 ^ k" "k \<le> 1000"
  shows "\<not> quantize_limit \<le> \<bar>n\<bar>"
proof -
  have "(10::int) ^ k \<le> 10 ^ 1000" using assms(2) by (intro power_increasing) simp_all
  with assms(1) show ?thesis unfolding quantize_limit_def by linarith
qed

lemma wad_from_decimal_exact:
  assumes "\<bar>c\<bar> < 10 ^ 28" "0 \<le> j" "j \<le> 900"
  shows "wad_from_decimal (of_int c * 10 powi (j - 18)) = Inr (Wad (c * 10 ^ nat j))"
proof -
  have e: "of_int c * 10 powi (j - 18) * 10 ^ 18 = (of_int c * 10 powi j :: rat)"
    by (simp add: power_int_diff)
  have d: "dec_mul (of_int c * 10 powi (j - 18)) (10 ^ 18) = of_int c * 10 powi j"
    unfolding dec_mul_def e using assms(1) by (rule dec_round_exact)
  have i: "(of_int c * 10 powi j :: rat) = of_int (c * 10 ^ nat j)"
    using assms(2) by (simp add: power_int_def)
  have t: "trunc (of_int c * 10 powi j) = c * 10 ^ nat j"
    unfolding i by (rule trunc_of_int)
  have "\<bar>c * 10 ^ nat j\<bar> < 10 ^ 28 * 10 ^ nat j"
    using assms(1) by (simp add: abs_mult)
  then have "\<bar>c * 10 ^ nat j\<bar> < 10 ^ (28 + nat j)" by (simp add: power_add)
  then have "\<not> quantize_limit \<le> \<bar>c * 10 ^ nat j\<bar>"
    by (rule small_below_quantize_limit) (use assms(3) in simp)
  then show ?thesis
    unfolding wad_from_decimal_def Let_def d t by (simp only: if_False)
qed

lemma repr_value_one_digit:
  assumes "is_double x" "x = of_int k * 10 powi j" "1 \<le> k" "k \<le> 9"
  shows "repr_value x = x"
proof -
  have "(of_int 1 :: rat) \<le> of_int k" using assms(3) by (simp only: of_int_le_iff)
  then have k1: "(1::rat) \<le> of_int k" by simp
  have "(of_int k :: rat) < of_int 10" using assms(4) by (simp only: of_int_less_iff)
  then have k2: "(of_int k :: rat) < 10" by simp
  have p: "(0::rat) < 10 powi j" by simp
  have lo: "10 powi j \<le> x"
    unfolding assms(2) using mult_right_mono[OF k1, of "10 powi j"] by simp
  have x: "0 < x" using lo p by linarith
  have hi: "x < 10 powi (j + 1)"
  proof -
    have "x < 10 * 10 powi j"
      unfolding assms(2) using mult_strict_right_mono[OF k2 p] by simp
    then show ?thesis by (simp add: power_int_add)
  qed
  have fl: "floorlog10 x = j" using lo hi by (rule floorlog10_eqI)
  have q: "x / 10 powi j = of_int k" unfolding assms(2) by simp
  have rd: "round_double x = Finite x" using assms(1) by (simp add: is_double_def)
  have s: "(10::rat) powi (j - int 1 + 1) = 10 powi j" by simp
  have lo_x: "of_int k * 10 powi j = x" by (simp add: assms(2))
  have c: "repr_candidate x 1 = Some x"
    unfolding repr_candidate_def Let_def fl s q floor_of_int lo_x rd
    using p by simp
  have "repr_search x 1 17 = repr_search x 1 (Suc 16)" by simp
  also have "\<dots> = x" unfolding repr_search.simps c by simp
  finally show ?thesis using x by (simp add: repr_value_def)
qed

lemma round_half_even_bounds:
  "of_int (round_half_even x) \<le> x + 1 / 2 \<and> x - 1 / 2 \<le> of_int (round_half_even x)"
proof -
  define f where "f = \<lfloor>x\<rfloor>"
  have f: "of_int f \<le> x" "x < of_int f + 1"
    using floor_correct[of x] by (simp_all add: f_def)
  show ?thesis
    unfolding round_half_even_def Let_def f_def[symmetric]
    using f by (auto simp: not_less)
qed

lemma round_half_even_le:
  assumes "x \<le> of_int z"
  shows "round_half_even x \<le> z"
proof -
  have "of_int (round_half_even x) \<le> x + 1 / 2" using round_half_even_bounds by blast
  with assms have "(of_int (round_half_even x) :: rat) < of_int (z + 1)" by simp
  then have "round_half_even x < z + 1" by (simp only: of_int_less_iff)
  then show ?thesis by simp
qed

lemma round_half_even_ge:
  assumes "of_int z \<le> x"
  shows "z \<le> round_half_even x"
proof -
  have "x - 1 / 2 \<le> of_int (round_half_even x)" using round_half_even_bounds by blast
  with assms have "(of_int (z - 1) :: rat) < of_int (round_half_even x)" by simp
  then have "z - 1 < round_half_even x" by (simp only: of_int_less_iff)
  then show ?thesis by simp
qed

lemma dec_round_nonneg:
  assumes "0 \<le> x"
  shows "0 \<le> dec_round_prec p x"
proof (cases "x = 0")
  case True
  then show ?thesis by (simp add: dec_round_prec_def)
next
  case False
  define s :: rat where "s = 10 powi (floorlog10 \<bar>x\<bar> - int p + 1)"
  have s: "0 < s" by (simp add: s_def)
  have "(of_int 0 :: rat) \<le> x / s" using assms s by simp
  then have "0 \<le> round_half_even (x / s)" by (rule round_half_even_ge)
  then have "(0::rat) \<le> of_int (round_half_even (x / s)) * s" using s by simp
  then show ?thesis using False by (simp add: dec_round_prec_def Let_def s_def)
qed

lemma dec_round_le_neg_pow:
  assumes "x \<le> - (10 powi j)" "0 < p"
  shows "dec_round_prec p x \<le> - (10 powi j)"
proof -
  have pj: "(0::rat) < 10 powi j" by simp
  have x0: "x < 0" using assms(1) pj by linarith
  then have ax: "\<bar>x\<bar> = - x" by simp
  define e where "e = floorlog10 \<bar>x\<bar>"
  have b: "10 powi e \<le> \<bar>x\<bar>" "\<bar>x\<bar> < 10 powi (e + 1)"
    using floorlog10_bounds[of "\<bar>x\<bar>"] x0 by (simp_all add: e_def)
  have "(10::rat) powi j < 10 powi (e + 1)" using assms(1) b(2) ax by linarith
  then have "j < e + 1" by (rule powi_less_imp_less[rotated]) simp
  then have je: "j \<le> e" by simp
  define s :: rat where "s = 10 powi (e - int p + 1)"
  have s: "0 < s" by (simp add: s_def)
  have es: "10 powi e = of_int (10 ^ (p - 1)) * s"
  proof -
    have "(10::rat) powi e = 10 powi (int (p - 1) + (e - int p + 1))"
      using assms(2) by (simp add: of_nat_diff)
    also have "\<dots> = 10 powi (int (p - 1)) * 10 powi (e - int p + 1)"
      by (subst power_int_add) simp_all
    finally show ?thesis by (simp add: s_def)
  qed
  have "x \<le> - (10 powi e)" using b(1) ax by linarith
  then have "x / s \<le> - (10 powi e) / s" using s by (intro divide_right_mono) simp_all
  also have "- (10 powi e) / s = of_int (- (10 ^ (p - 1)))" using s by (simp add: es)
  finally have "round_half_even (x / s) \<le> - (10 ^ (p - 1))" by (rule round_half_even_le)
  then have "(of_int (round_half_even (x / s)) :: rat) \<le> of_int (- (10 ^ (p - 1)))"
    by (simp only: of_int_le_iff)
  then have "of_int (round_half_even (x / s)) * s \<le> of_int (- (10 ^ (p - 1))) * s"
    using s by (simp only: mult_le_cancel_right_pos)
  also have "\<dots> = - (10 powi e)" by (simp add: es)
  also have "\<dots> \<le> - (10 powi j)" using je by (simp add: power_int_increasing)
  finally show ?thesis
    using x0 by (simp add: dec_round_prec_def Let_def e_def s_def)
qed

lemma trunc_nonneg: "0 \<le> x \<Longrightarrow> 0 \<le> trunc x"
  by (simp add: trunc_def)

lemma trunc_le_minus_one: "x \<le> - 1 \<Longrightarrow> trunc x \<le> - 1"
proof -
  assume "x \<le> - 1"
  then have "of_int 1 \<le> - x" by simp
  then have "1 \<le> \<lfloor>- x\<rfloor>" by (simp only: le_floor_iff)
  moreover have "\<not> 0 \<le> x" using \<open>x \<le> - 1\<close> by linarith
  ultimately show ?thesis by (simp add: trunc_def)
qed

lemma trunc_zero: "- 1 < x \<Longrightarrow> x < 1 \<Longrightarrow> trunc x = 0"
proof -
  assume a: "- 1 < x" "x < 1"
  show ?thesis
  proof (cases "0 \<le> x")
    case True
    then have "\<lfloor>x\<rfloor> = 0" using a by (simp add: floor_unique)
    with True show ?thesis by (simp add: trunc_def)
  next
    case False
    then have "\<lfloor>- x\<rfloor> = 0" using a by (simp add: floor_unique)
    with False show ?thesis by (simp add: trunc_def)
  qed
qed

section \<open>How far binary64 arithmetic is from exact arithmetic\<close>








section \<open>The example payloads, evaluated\<close>

lemmas parse_simps =
  float_of_string_def decimal_value_def int_of_string_def strip_def is_space_def is_str_space_def is_digit_def
  to_lower_def
  parse_decimal_def parse_exponent_def digits_value_def tick_size_of_def is_nan_literal_def

lemmas rd_1 = round_double_int[of 1, simplified]
lemmas rd_100 = round_double_int[of 100, simplified]
lemmas rd_1e12 = round_double_int[of "10 ^ 12", simplified]
lemmas rd_1e14 = round_double_int[of "10 ^ 14", simplified]
lemmas rd_1e18 = round_double_exact[of 7812500000000000 7, simplified]
lemmas trunc_1e18 = trunc_of_int[of "10 ^ 18", simplified]

lemma float_100: "float_of_string ''100.0'' = Inr (Finite 100)"
  by (simp add: parse_simps Let_def rd_100)

lemma float_1e18: "float_of_string ''1000000000000000000'' = Inr (Finite (10 ^ 18))"
  by (simp add: parse_simps Let_def rd_1e18)

lemma pow10_0: "py_pow10 0 = Inr (Finite 1)"
  by (simp add: py_pow10_def int_to_float_def rd_1)

lemma pow10_12: "py_pow10 12 = Inr (Finite (10 ^ 12))"
  by (simp add: py_pow10_def int_to_float_def rd_1e12)

lemma repr_100: "repr_value 100 = 100"
proof -
  have "repr_value (of_int 1 * 10 powi 2) = of_int 1 * 10 powi 2"
    by (rule repr_value_one_digit[OF _ refl]) (simp_all add: is_double_def rd_100)
  then show ?thesis by simp
qed

lemma repr_1e14: "repr_value (10 ^ 14) = 10 ^ 14"
proof -
  have "repr_value (of_int 1 * 10 powi 14) = of_int 1 * 10 powi 14"
    by (rule repr_value_one_digit[OF _ refl]) (simp_all add: is_double_def rd_1e14)
  then show ?thesis by simp
qed

lemma wad_100: "wad_from_decimal 100 = Inr (Wad (100 * 10 ^ 18))"
proof -
  have "wad_from_decimal (of_int 100 * 10 powi (18 - 18)) = Inr (Wad (100 * 10 ^ nat 18))"
    by (rule wad_from_decimal_exact) simp_all
  then show ?thesis by simp
qed

lemma wad_1e14: "wad_from_decimal (10 ^ 14) = Inr (Wad (10 ^ 32))"
proof -
  have "wad_from_decimal (of_int 1 * 10 powi (32 - 18)) = Inr (Wad (1 * 10 ^ nat 32))"
    by (rule wad_from_decimal_exact) simp_all
  then show ?thesis by simp
qed

lemma wad_1: "wad_from_decimal 1 = Inr (Wad (10 ^ 18))"
proof -
  have "wad_from_decimal (of_int 1 * 10 powi (18 - 18)) = Inr (Wad (1 * 10 ^ nat 18))"
    by (rule wad_from_decimal_exact) simp_all
  then show ?thesis by simp
qed

lemma wad_from_float_100: "wad_from_float (Finite 100) = Inr (Wad (100 * 10 ^ 18))"
  using wad_100 by (simp add: repr_100)

lemma wad_from_float_1e14: "wad_from_float (Finite (10 ^ 14)) = Inr (Wad (10 ^ 32))"
  using wad_1e14 repr_1e14 by simp

lemma from_wei_1e18: "from_wei (10 ^ 18) ''ether'' = Inr 1"
  by (simp add: from_wei_def units_def to_lower_def)

lemma scaled_price_dai:
  "scaled_price (raw_order oid st) market_dai = Inr (Wad (100 * 10 ^ 18))"
  using wad_from_float_100 float_100 pow10_0
  by (simp add: scaled_price_def raw_order_def market_dai_def py_getitem_def py_bind_def
      py_int_def py_float_def rd_100)

lemma scaled_price_usdc:
  "scaled_price (raw_order oid st) market_usdc = Inr (Wad (10 ^ 32))"
  using wad_from_float_1e14 float_100 pow10_12
  by (simp add: scaled_price_def raw_order_def market_usdc_def py_getitem_def py_bind_def
      py_int_def py_float_def rd_1e14)

lemma scaled_price_fill:
  "scaled_price (raw_fill uuid st) market_dai = Inr (Wad (100 * 10 ^ 18))"
  using wad_from_float_100 float_100 pow10_0
  by (simp add: scaled_price_def raw_fill_def market_dai_def py_getitem_def py_bind_def
      py_int_def py_float_def rd_100)

lemma wei_amount_1e18: "wei_amount (PStr ''1000000000000000000'') = Inr (Wad (10 ^ 18))"
  using float_1e18 from_wei_1e18 wad_1
  by (simp add: wei_amount_def py_float_def py_bind_def trunc_1e18)

lemma order_from_message_demo:
  "order_from_message demo_env (raw_order oid st) pair market_dai = Inr (demo_order oid pair)"
  unfolding order_from_message_def scaled_price_dai
  using wei_amount_1e18
  by (simp add: raw_order_def py_getitem_def py_bind_def demo_env_def demo_order_def)

lemma trade_from_message_demo:
  "trade_from_message demo_env (raw_fill uuid st) pair market_dai = Inr (demo_trade uuid)"
  unfolding trade_from_message_def scaled_price_fill
  using wei_amount_1e18
  by (simp add: raw_fill_def py_getitem_def py_bind_def demo_env_def demo_trade_def)

lemmas rd_m1e6 = round_double_int[of "- 1000000", simplified]

lemma float_m1e6: "float_of_string ''-1000000'' = Inr (Finite (- 1000000))"
  by (simp add: parse_simps Let_def rd_m1e6)

lemma trunc_m1e6: "trunc (- 1000000) = - 1000000"
  using trunc_of_int[of "- 1000000"] by simp

lemma int_of_string_2: "int_of_string ''2'' = Inr 2"
  by (simp add: parse_simps)

lemma int_of_string_7: "int_of_string ''7'' = Inr 7"
  by (simp add: parse_simps)

section \<open>Loops over payload lists\<close>

lemma py_bind_Inr_iff: "py_bind r f = Inr y \<longleftrightarrow> (\<exists>v. r = Inr v \<and> f v = Inr y)"
  by (cases r) (simp_all add: py_bind_def)

lemma py_filter_map_Inr_iff:
  "py_filter_map p f xs = Inr ys \<longleftrightarrow>
     (\<forall>x\<in>set xs. \<exists>b. p x = Inr b)
     \<and> list_all2 (\<lambda>x y. f x = Inr y) (filter (\<lambda>x. p x = Inr True) xs) ys"
proof (induction xs arbitrary: ys)
  case Nil
  then show ?case by auto
next
  case (Cons x xs)
  show ?case
  proof (cases "p x")
    case (Inl e)
    then show ?thesis by (auto simp: py_bind_def)
  next
    case (Inr keep)
    show ?thesis
    proof (cases keep)
      case True
      with Inr show ?thesis
        by (auto simp: py_bind_Inr_iff Cons.IH list_all2_Cons1)
    next
      case False
      with Inr show ?thesis
        by (auto simp: py_bind_def Cons.IH)
    qed
  qed
qed

lemma py_map_Inr_iff:
  "py_map f xs = Inr ys \<longleftrightarrow> list_all2 (\<lambda>x y. f x = Inr y) xs ys"
proof (induction xs arbitrary: ys)
  case Nil
  then show ?case by auto
next
  case (Cons x xs)
  then show ?case by (auto simp: py_bind_Inr_iff list_all2_Cons1)
qed

lemma field_equals_Inr_iff:
  "field_equals key s item = Inr b \<longleftrightarrow> (\<exists>v. py_getitem item key = Inr v \<and> b = (v = PStr s))"
  by (auto simp: field_equals_def py_bind_Inr_iff)

lemma field_equals_True_iff:
  "field_equals key s item = Inr True \<longleftrightarrow> py_getitem item key = Inr (PStr s)"
  by (auto simp: field_equals_Inr_iff)

lemma field_equals_defined_iff:
  "(\<exists>b. field_equals key s item = Inr b) \<longleftrightarrow> (\<exists>v. py_getitem item key = Inr v)"
  by (auto simp: field_equals_Inr_iff)

lemma raw_order_status: "py_getitem (raw_order oid st) ''status'' = Inr (PStr st)"
  by (simp add: raw_order_def py_getitem_def)

lemma raw_fill_status: "py_getitem (raw_fill uuid st) ''status'' = Inr (PStr st)"
  by (simp add: raw_fill_def py_getitem_def)

lemma order_from_message_pair:
  "order_from_message env item pair market = Inr ord \<Longrightarrow> order_pair ord = pair"
  by (auto simp: order_from_message_def py_bind_Inr_iff)

lemma trade_from_message_pair:
  "trade_from_message env item pair market = Inr t \<Longrightarrow>
     py_getitem item ''market'' = Inr (trade_pair t)"
  by (auto simp: trade_from_message_def py_bind_Inr_iff)

lemma list_all2_set_right:
  "list_all2 P xs ys \<Longrightarrow> y \<in> set ys \<Longrightarrow> \<exists>x\<in>set xs. P x y"
  by (induction rule: list_all2_induct) auto

lemma field_equals_raw_order:
  "field_equals ''status'' s (raw_order oid st) = Inr (PStr st = PStr s)"
  by (simp add: field_equals_def raw_order_status py_bind_def)

lemma field_equals_raw_fill:
  "field_equals ''status'' s (raw_fill uuid st) = Inr (PStr st = PStr s)"
  by (simp add: field_equals_def raw_fill_status py_bind_def)

lemma get_orders_demo:
  "fst (get_orders demo_env demo_api ''WETH-DAI'')
     = Inr [demo_order ''a1'' ''WETH-DAI'', demo_order ''d4'' ''WETH-DAI'']"
  by (simp add: get_orders_def Let_def demo_api_def demo_client_def demo_markets_def
      py_getitem_def py_bind_def py_iter_def demo_order_items_def field_equals_raw_order
      order_from_message_demo)

lemma get_trades_demo:
  "fst (get_trades demo_env demo_api ''WETH-DAI'' 1) = Inr [demo_trade ''f3'']"
  by (simp add: get_trades_def Let_def demo_api_def demo_client_def demo_markets_def
      py_getitem_def py_bind_def py_iter_def demo_my_fill_items_def trade_from_message_demo)

lemma get_all_trades_demo:
  "fst (get_all_trades demo_env demo_api ''WETH-DAI'' 1) = Inr [demo_trade ''f2'']"
  by (simp add: get_all_trades_def Let_def demo_api_def demo_client_def demo_markets_def
      py_getitem_def py_bind_def py_iter_def demo_fill_items_def field_equals_raw_fill
      trade_from_message_demo)

section \<open>Balances: the conversion, unfolded\<close>

lemma from_wei_ether:
  "from_wei n ''ether'' =
     (if n < 0 \<or> 2 ^ 256 \<le> n then Inl ValueError else Inr (of_int n / 10 ^ 18))"
  by (auto simp: from_wei_def units_def to_lower_def)

lemma from_wei_mwei:
  "from_wei n ''mwei'' =
     (if n < 0 \<or> 2 ^ 256 \<le> n then Inl ValueError else Inr (of_int n / 10 ^ 6))"
  by (auto simp: from_wei_def units_def to_lower_def)

lemma convert_balance_unfold:
  assumes "py_getitem balance ''wei'' = Inr w" "py_float w = Inr (Finite x)"
  shows "convert_balance_to_wad balance d =
           (if 2 ^ 256 \<le> \<bar>trunc x\<bar> then Inl ValueError
            else
              py_bind
                (wad_from_decimal
                   (if x < 0 then dec_mul (of_int \<bar>trunc x\<bar> / 10 ^ (if d = 6 then 6 else 18)) (- 1)
                    else of_int \<bar>trunc x\<bar> / 10 ^ (if d = 6 then 6 else 18)))
                (\<lambda>w. py_setitem balance ''wad'' (PWad w)))"
  using assms
  by (simp add: convert_balance_to_wad_def py_bind_def from_wei_ether from_wei_mwei Let_def)

lemma setitem_lookup:
  "py_setitem balance k v = Inr b \<Longrightarrow>
     py_getitem b k = Inr v \<and> (\<forall>k'. k' \<noteq> k \<longrightarrow> py_getitem b k' = py_getitem balance k')"
proof -
  assume a: "py_setitem balance k v = Inr b"
  then obtain kvs where kvs: "balance = PDict kvs" "b = PDict (dict_set kvs k v)"
    by (cases balance) (auto simp: py_setitem_def)
  have "map_of (dict_set kvs k v) = (map_of kvs)(k \<mapsto> v)"
    by (induction kvs) (auto simp: fun_eq_iff)
  then show ?thesis by (simp add: kvs py_getitem_def)
qed


lemma trunc_sign_abs: "(if x < 0 then - \<bar>trunc x\<bar> else \<bar>trunc x\<bar>) = trunc x"
  by (auto simp: trunc_def not_less)

lemma convert_balance_small:
  assumes "py_getitem balance ''wei'' = Inr w" "py_float w = Inr (Finite x)"
    and "\<bar>trunc x\<bar> < 10 ^ 28"
  shows "convert_balance_to_wad balance d =
           py_setitem balance ''wad'' (PWad (Wad (trunc x * 10 ^ (if d = 6 then 12 else 0))))"
proof -
  define k :: nat where "k = (if d = 6 then 6 else 18)"
  define j :: int where "j = 18 - int k"
  have j: "0 \<le> j" "j \<le> 900" "nat j = (if d = 6 then 12 else 0)" "- int k = j - 18"
    by (simp_all add: j_def k_def)
  have small: "\<not> (2 ^ 256 \<le> \<bar>trunc x\<bar>)" using assms(3) by simp
  have pw: "(of_int n :: rat) / 10 ^ k = of_int n * 10 powi (- int k)" for n
    by (simp add: power_int_minus divide_inverse)
  have e1: "(of_int \<bar>trunc x\<bar> / 10 ^ k) * (- 1) = (of_int (- \<bar>trunc x\<bar>) * 10 powi (- int k) :: rat)"
    by (simp add: power_int_minus divide_inverse)
  have neg: "dec_mul (of_int \<bar>trunc x\<bar> / 10 ^ k) (- 1) = of_int (- \<bar>trunc x\<bar>) * 10 powi (- int k)"
    unfolding dec_mul_def e1 by (rule dec_round_exact) (use assms(3) in simp)
  have signed:
    "(if x < 0 then dec_mul (of_int \<bar>trunc x\<bar> / 10 ^ k) (- 1) else of_int \<bar>trunc x\<bar> / 10 ^ k)
       = of_int (trunc x) * 10 powi (j - 18)"
  proof (cases "x < 0")
    case True
    then have t: "- \<bar>trunc x\<bar> = trunc x" using trunc_sign_abs[of x] by simp
    have "dec_mul (of_int \<bar>trunc x\<bar> / 10 ^ k) (- 1) = of_int (- \<bar>trunc x\<bar>) * 10 powi (- int k)"
      by (rule neg)
    also have "\<dots> = of_int (trunc x) * 10 powi (j - 18)" by (simp only: t j(4))
    finally show ?thesis using True by (simp only: if_True)
  next
    case False
    then have t: "\<bar>trunc x\<bar> = trunc x" using trunc_sign_abs[of x] by simp
    have "(of_int \<bar>trunc x\<bar> :: rat) / 10 ^ k = of_int (trunc x) * 10 powi (j - 18)"
      by (simp only: t pw j(4))
    then show ?thesis using False by (simp only: if_False)
  qed
  have "wad_from_decimal (of_int (trunc x) * 10 powi (j - 18)) = Inr (Wad (trunc x * 10 ^ nat j))"
    using assms(3) j(1,2) by (rule wad_from_decimal_exact)
  then show ?thesis
    unfolding convert_balance_unfold[OF assms(1,2)] k_def[symmetric] signed
    using small by (simp add: py_bind_def j(3))
qed

lemma convert_balance_sign:
  assumes "py_getitem balance ''wei'' = Inr w" "py_float w = Inr (Finite x)"
    and "convert_balance_to_wad balance d = Inr b"
  shows "\<exists>n. py_getitem b ''wad'' = Inr (PWad (Wad n)) \<and> (n < 0 \<longleftrightarrow> x \<le> - 1)"
proof -
  define k :: nat where "k = (if d = 6 then 6 else 18)"
  define m where "m = \<bar>trunc x\<bar>"
  define c :: rat where "c = of_int m / 10 ^ k"
  define signed where "signed = (if x < 0 then dec_mul c (- 1) else c)"
  have k18: "k \<le> 18" by (simp add: k_def)
  from assms(3) obtain wd where
    wd: "wad_from_decimal signed = Inr wd" "py_setitem balance ''wad'' (PWad wd) = Inr b"
    unfolding convert_balance_unfold[OF assms(1,2)] k_def[symmetric] m_def[symmetric]
      c_def[symmetric] signed_def[symmetric]
    by (auto simp: py_bind_Inr_iff split: if_splits)
  define n where "n = trunc (dec_mul signed (10 ^ 18))"
  have wdn: "wd = Wad n"
    using wd(1) by (auto simp: wad_from_decimal_def Let_def n_def split: if_splits)
  have look: "py_getitem b ''wad'' = Inr (PWad (Wad n))"
    using setitem_lookup[OF wd(2)] wdn by simp
  have sign: "n < 0 \<longleftrightarrow> x \<le> - 1"
  proof (cases "x \<le> - 1")
    case True
    then have "trunc x \<le> - 1" by (rule trunc_le_minus_one)
    then have m1: "1 \<le> m" by (simp add: m_def)
    then have "(of_int 1 :: rat) \<le> of_int m" by (simp only: of_int_le_iff)
    then have "1 / 10 ^ k \<le> c" by (simp add: c_def divide_right_mono)
    then have "- c \<le> - (10 powi (- int k))" by (simp add: power_int_minus divide_inverse)
    then have "dec_round_prec 28 (- c) \<le> - (10 powi (- int k))"
      by (rule dec_round_le_neg_pow) simp
    moreover have "signed = dec_round_prec 28 (- c)" using True by (simp add: signed_def dec_mul_def)
    ultimately have "signed \<le> - (10 powi (- int k))" by simp
    then have "signed * 10 ^ 18 \<le> - (10 powi (- int k)) * 10 ^ 18"
      by (simp only: mult_le_cancel_right_pos[of "10 ^ 18"] zero_less_power zero_less_numeral)
    also have "- (10 powi (- int k)) * 10 ^ 18 = - ((10::rat) powi (18 - int k))"
      by (simp add: power_int_diff power_int_minus divide_inverse mult.commute)
    finally have "dec_round_prec 28 (signed * 10 ^ 18) \<le> - (10 powi (18 - int k))"
      by (rule dec_round_le_neg_pow) simp
    moreover have "(1::rat) \<le> 10 powi (18 - int k)" using k18 by (intro one_le_power_int) simp_all
    ultimately have "dec_mul signed (10 ^ 18) \<le> - 1" unfolding dec_mul_def by linarith
    then have "n \<le> - 1" unfolding n_def by (rule trunc_le_minus_one)
    with True show ?thesis by simp
  next
    case False
    have "0 \<le> n"
    proof (cases "x < 0")
      case True
      with False have "trunc x = 0" by (intro trunc_zero) simp_all
      then have "c = 0" by (simp add: c_def m_def)
      then have "signed = 0" by (simp add: signed_def dec_mul_def dec_round_prec_def)
      then show ?thesis by (simp add: n_def dec_mul_def dec_round_prec_def trunc_def)
    next
      case False
      have "0 \<le> c" by (simp add: c_def m_def)
      then have "0 \<le> signed * 10 ^ 18" using False by (simp add: signed_def)
      then have "0 \<le> dec_mul signed (10 ^ 18)" unfolding dec_mul_def by (rule dec_round_nonneg)
      then show ?thesis unfolding n_def by (rule trunc_nonneg)
    qed
    with False show ?thesis by simp
  qed
  from look sign show ?thesis by blast
qed

lemma balance_entry_wei:
  assumes "py_setitem balance ''currency'' v = Inr b'"
  shows "py_getitem b' ''wei'' = py_getitem balance ''wei''"
  using setitem_lookup[OF assms] by simp

lemma balance_entry_cases:
  assumes "balance_entry env market_id balance = Inr b"
  obtains d where "convert_balance_to_wad balance d = Inr b"
  | d v b' where "py_setitem balance ''currency'' v = Inr b'" "convert_balance_to_wad b' d = Inr b"
  using assms unfolding balance_entry_def
  by (auto simp: py_bind_Inr_iff split: if_splits)


lemma py_map_append:
  assumes "py_map f xs = Inr bs1" "f y = Inr b" "py_map f ys = Inr bs2"
  shows "py_map f (xs @ y # ys) = Inr (bs1 @ b # bs2)"
  using assms by (simp add: py_map_Inr_iff list_all2_appendI)

lemma convert_demo_7:
  "convert_balance_to_wad (PDict [(''wei'', PStr ''1000000000000000000'')]) 18
     = Inr (PDict [(''wei'', PStr ''1000000000000000000''), (''wad'', PWad (Wad (10 ^ 18)))])"
proof -
  have "convert_balance_to_wad (PDict [(''wei'', PStr ''1000000000000000000'')]) 18
          = py_setitem (PDict [(''wei'', PStr ''1000000000000000000'')]) ''wad''
              (PWad (Wad (trunc (10 ^ 18) * 10 ^ (if (18::int) = 6 then 12 else 0))))"
    by (rule convert_balance_small[where w = "PStr ''1000000000000000000''"])
       (simp_all add: py_getitem_def py_float_def float_1e18 trunc_1e18)
  then show ?thesis by (simp add: py_setitem_def trunc_1e18)
qed

lemma balance_entry_sign:
  assumes "py_getitem balance ''wei'' = Inr w" "py_float w = Inr (Finite x)"
    and "balance_entry env market_id balance = Inr b"
  shows "\<exists>n. py_getitem b ''wad'' = Inr (PWad (Wad n)) \<and> (n < 0 \<longleftrightarrow> x \<le> - 1)"
  using assms(3)
proof (cases rule: balance_entry_cases)
  case (1 d)
  with assms(1,2) show ?thesis by (rule convert_balance_sign)
next
  case (2 d v b')
  have "py_getitem b' ''wei'' = Inr w" using balance_entry_wei[OF 2(1)] assms(1) by simp
  then show ?thesis using assms(2) 2(2) by (rule convert_balance_sign)
qed

lemma convert_usdc_example:
  "convert_balance_to_wad (PDict [(''wei'', PStr ''-1000000''), (''currency'', PStr ''USDC'')]) 6
     = Inr (PDict [(''wei'', PStr ''-1000000''), (''currency'', PStr ''USDC''),
                   (''wad'', PWad (Wad (- (10 ^ 18))))])"
proof -
  have "convert_balance_to_wad (PDict [(''wei'', PStr ''-1000000''), (''currency'', PStr ''USDC'')]) 6
          = py_setitem (PDict [(''wei'', PStr ''-1000000''), (''currency'', PStr ''USDC'')]) ''wad''
              (PWad (Wad (trunc (- 1000000) * 10 ^ (if (6::int) = 6 then 12 else 0))))"
    by (rule convert_balance_small[where w = "PStr ''-1000000''"])
       (simp_all add: py_getitem_def py_float_def float_m1e6 trunc_m1e6)
  then show ?thesis by (simp add: py_setitem_def trunc_m1e6)
qed

text \<open>Whole numbers of wei: a float of magnitude at least one keeps it and its sign.\<close>

lemma round_double_int_sign:
  assumes "round_double (of_int n) = Finite x"
  shows "x \<le> - 1 \<longleftrightarrow> n < 0"
proof -
  define X :: rat where "X = of_int n"
  define q where "q = max (floorlog2 \<bar>X\<bar> - 52) (- 1074)"
  define r :: rat where "r = of_int (round_half_even (X / 2 powi q)) * 2 powi q"
  have qpos: "(0::rat) < 2 powi q" by simp
  consider "n = 0" | "0 < n" | "n < 0" by linarith
  then show ?thesis
  proof cases
    case 1
    with assms show ?thesis by (simp add: round_double_def)
  next
    case 2
    then have X0: "X \<noteq> 0" "0 \<le> X" by (simp_all add: X_def)
    from assms have xr: "x = r"
      unfolding X_def[symmetric] round_double_def using X0(1)
      by (simp add: Let_def q_def[symmetric] r_def[symmetric] split: if_splits)
    have "of_int 0 \<le> X / 2 powi q" using X0(2) by simp
    then have "0 \<le> round_half_even (X / 2 powi q)" by (rule round_half_even_ge)
    then have "0 \<le> r" by (simp add: r_def)
    with xr 2 show ?thesis by simp
  next
    case 3
    then have "n \<le> - 1" by simp
    then have "(of_int n :: rat) \<le> of_int (- 1)" by (simp only: of_int_le_iff)
    then have X1: "X \<le> - 1" by (simp add: X_def)
    then have X0: "X \<noteq> 0" and aX: "\<bar>X\<bar> = - X" "0 < \<bar>X\<bar>" by simp_all
    from assms have xr: "x = r"
      unfolding X_def[symmetric] round_double_def using X0
      by (simp add: Let_def q_def[symmetric] r_def[symmetric] split: if_splits)
    define L where "L = floorlog2 \<bar>X\<bar>"
    have Lb: "2 powi L \<le> \<bar>X\<bar>" "\<bar>X\<bar> < 2 powi (L + 1)"
      using floorlog2_bounds[OF aX(2)] by (simp_all add: L_def)
    have "(2::rat) powi 0 \<le> \<bar>X\<bar>" using X1 by simp
    also note Lb(2)
    finally have "0 < L + 1" by (intro powi_less_imp_less[of "2::rat"]) simp_all
    then have L0: "0 \<le> L" by simp
    then have q: "q = L - 52" by (simp add: q_def L_def[symmetric])
    have split: "(2::rat) powi L = 2 ^ 52 * 2 powi q"
      using powi_split[of "2::rat" q L] by (simp add: q)
    have "X \<le> - (2 powi L)" using Lb(1) aX(1) by linarith
    then have "X / 2 powi q \<le> - (2 powi L) / 2 powi q"
      by (rule divide_right_mono) (rule less_imp_le[OF qpos])
    also have "- ((2::rat) powi L) / 2 powi q = of_int (- (2 ^ 52))" by (simp add: split)
    finally have "round_half_even (X / 2 powi q) \<le> - (2 ^ 52)" by (rule round_half_even_le)
    then have "(of_int (round_half_even (X / 2 powi q)) :: rat) \<le> of_int (- (2 ^ 52))"
      by (simp only: of_int_le_iff)
    then have "r \<le> of_int (- (2 ^ 52)) * 2 powi q"
      unfolding r_def using qpos by (intro mult_right_mono) simp_all
    also have "of_int (- (2 ^ 52)) * 2 powi q = - ((2::rat) powi L)" by (simp add: split)
    also have "- ((2::rat) powi L) \<le> - 1" using L0 by (simp add: one_le_power_int)
    finally show ?thesis using xr 3 by simp
  qed
qed

lemma convert_balance_wire:
  assumes "convert_balance_to_wad balance d = Inr b"
  obtains w x where "py_getitem balance ''wei'' = Inr w" "py_float w = Inr (Finite x)"
proof -
  from assms obtain w f m where
    "py_getitem balance ''wei'' = Inr w" "py_float w = Inr f" "int_of_float f = Inr m"
    unfolding convert_balance_to_wad_def by (auto simp: py_bind_Inr_iff Let_def)
  moreover from this(3) obtain x where "f = Finite x" by (cases f) simp_all
  ultimately show ?thesis using that by blast
qed

lemma whole_wire_float:
  assumes "w = PInt n \<or> w = PFloat (Finite (of_int n))
             \<or> (\<exists>s. w = PStr s \<and> decimal_value s = Some (of_int n))"
    and "py_float w = Inr (Finite x)"
  shows "x \<le> - 1 \<longleftrightarrow> n < 0"
proof -
  consider "w = PInt n" | "w = PFloat (Finite (of_int n))"
    | s where "w = PStr s" "decimal_value s = Some (of_int n)"
    using assms(1) by blast
  then show ?thesis
  proof cases
    case 1
    with assms(2) have "round_double (of_int n) = Finite x"
      by (auto simp: py_float_def int_to_float_def split: pyfloat.splits)
    then show ?thesis by (rule round_double_int_sign)
  next
    case 2
    with assms(2) have "x = of_int n" by (simp add: py_float_def)
    moreover have "(of_int n :: rat) \<le> of_int (- 1) \<longleftrightarrow> n \<le> - 1" by (simp only: of_int_le_iff)
    ultimately show ?thesis by auto
  next
    case 3
    with assms(2) have "round_double (of_int n) = Finite x"
      by (simp add: py_float_def float_of_string_def)
    then show ?thesis by (rule round_double_int_sign)
  qed
qed

lemma balance_entry_wire:
  assumes "py_getitem balance ''wei'' = Inr w" "balance_entry env market_id balance = Inr b"
  obtains x where "py_float w = Inr (Finite x)"
  using assms(2)
proof (cases rule: balance_entry_cases)
  case (1 d)
  then show ?thesis using assms(1) that by (elim convert_balance_wire) simp
next
  case (2 d v b')
  have "py_getitem b' ''wei'' = Inr w" using balance_entry_wei[OF 2(1)] assms(1) by simp
  then show ?thesis using 2(2) that by (elim convert_balance_wire) simp
qed


lemma whole_wire_exact:
  assumes "w = PInt n \<or> w = PFloat (Finite (of_int n))
             \<or> (\<exists>s. w = PStr s \<and> decimal_value s = Some (of_int n))"
    and "\<bar>n\<bar> < 2 ^ 53"
  shows "py_float w = Inr (Finite (of_int n))"
  using assms(1) round_double_int[OF assms(2)]
  by (auto simp: py_float_def int_to_float_def float_of_string_def)

lemma convert_balance_whole:
  assumes "py_getitem balance ''wei'' = Inr w"
    and "w = PInt n \<or> w = PFloat (Finite (of_int n))
           \<or> (\<exists>s. w = PStr s \<and> decimal_value s = Some (of_int n))"
    and "\<bar>n\<bar> < 2 ^ 53"
    and "convert_balance_to_wad balance d = Inr b"
  shows "py_getitem b ''wad'' = Inr (PWad (Wad (n * 10 ^ (if d = 6 then 12 else 0))))"
proof -
  have f: "py_float w = Inr (Finite (of_int n))" using assms(2,3) by (rule whole_wire_exact)
  have "\<bar>n\<bar> < 10 ^ 28" using assms(3) by simp
  then have "\<bar>trunc (of_int n)\<bar> < 10 ^ 28" by (simp only: trunc_of_int)
  with assms(1) f have "convert_balance_to_wad balance d =
      py_setitem balance ''wad'' (PWad (Wad (trunc (of_int n) * 10 ^ (if d = 6 then 12 else 0))))"
    by (rule convert_balance_small)
  then have "py_setitem balance ''wad'' (PWad (Wad (n * 10 ^ (if d = 6 then 12 else 0)))) = Inr b"
    using assms(4) by (simp only: trunc_of_int)
  then show ?thesis using setitem_lookup by blast
qed

lemma decimal_value_m1e6: "decimal_value ''-1000000'' = Some (of_int (- 1000000))"
  by (simp add: parse_simps Let_def)
section \<open>Amounts and prices of the record translations\<close>












lemmas rd_tenth_double = round_double_exact[of 7205759403792794 "- 56", simplified]


lemma fmul_tenth_1:
  "fmul (Finite (3602879701896397 / 36028797018963968)) (Finite 1)
     = Finite (3602879701896397 / 36028797018963968)"
  using rd_tenth_double by simp










section \<open>The price of a placed order\<close>
















section \<open>Claims\<close>

subsection \<open>Cancelling and paging\<close>

text \<open>
  C4. When the client answers a cancellation with a payload that reports the id of the
  cancelled order, \<^verbatim>\<open>cancel_order\<close> returns whether that id equals the requested one:
  true on a match, false on any mismatch, and it raises nothing.
\<close>

theorem cancel_order_reports_match:
  assumes "client api (CancelOrder oid) = Inr resp"
    and "py_getitem resp ''order'' = Inr ord"
    and "py_getitem ord ''id'' = Inr cid"
  shows "fst (cancel_order api oid) = Inr (cid = PStr oid)
         \<and> (\<forall>e. fst (cancel_order api oid) \<noteq> Inl e)"
  using assms by (simp add: cancel_order_def Let_def py_bind_def)

theorem cancel_order_reports_match_witness:
  "fst (cancel_order demo_api ''a1'') = Inr True
   \<and> fst (cancel_order demo_api ''b2'') = Inr False"
  using cancel_order_reports_match
      [of demo_api "''a1''" "PDict [(''order'', PDict [(''id'', PStr ''a1'')])]"
          "PDict [(''id'', PStr ''a1'')]" "PStr ''a1''"]
    cancel_order_reports_match
      [of demo_api "''b2''" "PDict [(''order'', PDict [(''id'', PStr ''zz'')])]"
          "PDict [(''id'', PStr ''zz'')]" "PStr ''zz''"]
  by (simp add: demo_api_def demo_client_def py_getitem_def)

text \<open>
  C7. \<^verbatim>\<open>get_all_trades\<close> fails its precondition check for every page number other than
  1, whatever the client and the market metadata are, and has made no call on the client
  then; with page number 1 the check passes: the client is asked for the fills.
\<close>

theorem get_all_trades_page_check:
  "(page_number \<noteq> 1 \<longrightarrow> get_all_trades env api pair page_number = (Inl AssertionError, []))
   \<and> snd (get_all_trades env api pair 1) = [GetFills [pair] 100]"
  by (simp add: get_all_trades_def Let_def)

theorem get_all_trades_page_check_witness:
  "get_all_trades demo_env demo_api ''WETH-DAI'' 2 = (Inl AssertionError, [])
   \<and> snd (get_all_trades demo_env demo_api ''WETH-DAI'' 1) = [GetFills [''WETH-DAI''] 100]"
  using get_all_trades_page_check [of 2 demo_env demo_api "''WETH-DAI''"] by simp

subsection \<open>Filtering by status\<close>

text \<open>
  C5. Let the client answer \<^verbatim>\<open>get_my_orders\<close> with a list of raw orders of any statuses,
  and let the pair have metadata. Then \<^verbatim>\<open>get_orders(pair)\<close> returns a list exactly when
  every raw order has a status and every raw order whose status is \<^verbatim>\<open>"OPEN"\<close>
  translates; the list holds the normalized Orders of exactly the raw orders whose status
  equals \<^verbatim>\<open>"OPEN"\<close>, in their order, and nothing for an order of any other status.
\<close>

theorem get_orders_open_only:
  assumes "client api (GetMyOrders [pair] None None) = Inr resp"
    and "py_getitem resp ''orders'' = Inr (PList items)"
    and "py_getitem (market_info api) pair = Inr market"
  shows "fst (get_orders env api pair) = Inr result \<longleftrightarrow>
           (\<forall>item\<in>set items. \<exists>st. py_getitem item ''status'' = Inr st)
           \<and> list_all2 (\<lambda>item ord. order_from_message env item pair market = Inr ord)
                (filter (\<lambda>item. py_getitem item ''status'' = Inr (PStr ''OPEN'')) items) result"
  using assms
  by (simp add: get_orders_def Let_def py_bind_def py_iter_def py_filter_map_Inr_iff
      field_equals_True_iff field_equals_defined_iff)

theorem get_orders_open_only_witness:
  "fst (get_orders demo_env demo_api ''WETH-DAI'')
     = Inr [demo_order ''a1'' ''WETH-DAI'', demo_order ''d4'' ''WETH-DAI'']"
proof -
  have "fst (get_orders demo_env demo_api ''WETH-DAI'')
          = Inr [demo_order ''a1'' ''WETH-DAI'', demo_order ''d4'' ''WETH-DAI''] \<longleftrightarrow>
        (\<forall>item\<in>set demo_order_items. \<exists>st. py_getitem item ''status'' = Inr st)
        \<and> list_all2 (\<lambda>item ord. order_from_message demo_env item ''WETH-DAI'' market_dai = Inr ord)
             (filter (\<lambda>item. py_getitem item ''status'' = Inr (PStr ''OPEN'')) demo_order_items)
             [demo_order ''a1'' ''WETH-DAI'', demo_order ''d4'' ''WETH-DAI'']"
    by (rule get_orders_open_only
          [where resp = "PDict [(''orders'', PList demo_order_items)]"])
       (simp_all add: demo_api_def demo_client_def demo_markets_def py_getitem_def)
  then show ?thesis
    by (simp add: demo_order_items_def raw_order_status order_from_message_demo)
qed

text \<open>
  C6. Let the client answer \<^verbatim>\<open>get_fills\<close> with a list of raw fills, and let the pair have
  metadata. Then \<^verbatim>\<open>get_all_trades(pair)\<close> returns a list exactly when every fill has a
  status and every fill whose status is \<^verbatim>\<open>"CONFIRMED"\<close> translates; the list holds the
  normalized Trades of exactly the fills whose status equals \<^verbatim>\<open>"CONFIRMED"\<close>, in their
  order, and nothing for a fill of any other status.
\<close>

theorem get_all_trades_confirmed_only:
  assumes "client api (GetFills [pair] 100) = Inr resp"
    and "py_getitem resp ''fills'' = Inr (PList items)"
    and "py_getitem (market_info api) pair = Inr market"
  shows "fst (get_all_trades env api pair 1) = Inr result \<longleftrightarrow>
           (\<forall>item\<in>set items. \<exists>st. py_getitem item ''status'' = Inr st)
           \<and> list_all2 (\<lambda>item t. trade_from_message env item pair market = Inr t)
                (filter (\<lambda>item. py_getitem item ''status'' = Inr (PStr ''CONFIRMED'')) items)
                result"
  using assms
  by (simp add: get_all_trades_def Let_def py_bind_def py_iter_def py_filter_map_Inr_iff
      field_equals_True_iff field_equals_defined_iff)

theorem get_all_trades_confirmed_only_witness:
  "fst (get_all_trades demo_env demo_api ''WETH-DAI'' 1) = Inr [demo_trade ''f2'']"
proof -
  have "fst (get_all_trades demo_env demo_api ''WETH-DAI'' 1) = Inr [demo_trade ''f2''] \<longleftrightarrow>
        (\<forall>item\<in>set demo_fill_items. \<exists>st. py_getitem item ''status'' = Inr st)
        \<and> list_all2 (\<lambda>item t. trade_from_message demo_env item ''WETH-DAI'' market_dai = Inr t)
             (filter (\<lambda>item. py_getitem item ''status'' = Inr (PStr ''CONFIRMED''))
                demo_fill_items)
             [demo_trade ''f2'']"
    by (rule get_all_trades_confirmed_only
          [where resp = "PDict [(''fills'', PList demo_fill_items)]"])
       (simp_all add: demo_api_def demo_client_def demo_markets_def py_getitem_def)
  then show ?thesis
    by (simp add: demo_fill_items_def raw_fill_status trade_from_message_demo)
qed

text \<open>
  C10. Every Order that \<^verbatim>\<open>get_orders\<close> returns carries the pair the caller requested.
  Every Trade that \<^verbatim>\<open>get_trades\<close> or \<^verbatim>\<open>get_all_trades\<close> returns carries as its pair
  the value of \<^verbatim>\<open>"market"\<close> of the raw fill it was made of, whatever pair was requested:
  in the example the fills of \<^verbatim>\<open>WETH-DAI\<close> come back as Trades of \<^verbatim>\<open>DAI-WETH\<close>.
\<close>

theorem pair_of_orders_and_trades:
  "(fst (get_orders env api pair) = Inr orders \<longrightarrow> (\<forall>ord\<in>set orders. order_pair ord = pair))
   \<and> (client api (GetMyFills [pair]) = Inr mine \<and> py_getitem mine ''fills'' = Inr (PList my_fills)
        \<and> fst (get_trades env api pair page_number) = Inr my_trades \<longrightarrow>
        list_all2 (\<lambda>item t. py_getitem item ''market'' = Inr (trade_pair t)) my_fills my_trades)
   \<and> (client api (GetFills [pair] 100) = Inr every \<and> py_getitem every ''fills'' = Inr (PList fills)
        \<and> fst (get_all_trades env api pair 1) = Inr trades \<longrightarrow>
        list_all2 (\<lambda>item t. py_getitem item ''market'' = Inr (trade_pair t))
          (filter (\<lambda>item. py_getitem item ''status'' = Inr (PStr ''CONFIRMED'')) fills) trades)"
proof (intro conjI impI)
  assume "fst (get_orders env api pair) = Inr orders"
  then obtain items market where
    "list_all2 (\<lambda>item ord. order_from_message env item pair market = Inr ord)
       (filter (\<lambda>item. field_equals ''status'' ''OPEN'' item = Inr True) items) orders"
    by (auto simp: get_orders_def Let_def py_bind_Inr_iff py_filter_map_Inr_iff)
  then show "\<forall>ord\<in>set orders. order_pair ord = pair"
    by (auto dest!: list_all2_set_right dest: order_from_message_pair)
next
  assume a: "client api (GetMyFills [pair]) = Inr mine \<and> py_getitem mine ''fills'' = Inr (PList my_fills)
        \<and> fst (get_trades env api pair page_number) = Inr my_trades"
  then obtain market where
    "list_all2 (\<lambda>item t. trade_from_message env item pair market = Inr t) my_fills my_trades"
    by (auto simp: get_trades_def Let_def py_bind_Inr_iff py_map_Inr_iff py_iter_def)
  then show "list_all2 (\<lambda>item t. py_getitem item ''market'' = Inr (trade_pair t)) my_fills my_trades"
    by (rule list_all2_mono) (rule trade_from_message_pair)
next
  assume a: "client api (GetFills [pair] 100) = Inr every \<and> py_getitem every ''fills'' = Inr (PList fills)
        \<and> fst (get_all_trades env api pair 1) = Inr trades"
  then obtain market where
    "list_all2 (\<lambda>item t. trade_from_message env item pair market = Inr t)
       (filter (\<lambda>item. py_getitem item ''status'' = Inr (PStr ''CONFIRMED'')) fills) trades"
    by (auto simp: get_all_trades_def Let_def py_bind_Inr_iff py_filter_map_Inr_iff py_iter_def
        field_equals_True_iff)
  then show "list_all2 (\<lambda>item t. py_getitem item ''market'' = Inr (trade_pair t))
          (filter (\<lambda>item. py_getitem item ''status'' = Inr (PStr ''CONFIRMED'')) fills) trades"
    by (rule list_all2_mono) (rule trade_from_message_pair)
qed

theorem pair_of_orders_and_trades_witness:
  "order_pair (demo_order ''a1'' ''WETH-DAI'') = ''WETH-DAI''
   \<and> order_pair (demo_order ''d4'' ''WETH-DAI'') = ''WETH-DAI''
   \<and> py_getitem (raw_fill ''f3'' ''CONFIRMED'') ''market'' = Inr (trade_pair (demo_trade ''f3''))
   \<and> py_getitem (raw_fill ''f2'' ''CONFIRMED'') ''market'' = Inr (trade_pair (demo_trade ''f2''))
   \<and> trade_pair (demo_trade ''f3'') \<noteq> PStr ''WETH-DAI''"
  using pair_of_orders_and_trades
      [of demo_env demo_api "''WETH-DAI''"
          "[demo_order ''a1'' ''WETH-DAI'', demo_order ''d4'' ''WETH-DAI'']"
          "PDict [(''fills'', PList demo_my_fill_items)]" demo_my_fill_items 1
          "[demo_trade ''f3'']"
          "PDict [(''fills'', PList demo_fill_items)]" demo_fill_items
          "[demo_trade ''f2'']"]
    get_orders_demo get_trades_demo get_all_trades_demo
  by (simp add: demo_api_def demo_client_def py_getitem_def demo_my_fill_items_def
      demo_fill_items_def raw_fill_def demo_trade_def)

subsection \<open>Balances\<close>

text \<open>
  C8. A balance entry whose market id is a number other than the four known ones is
  converted as an 18-decimal asset and nothing else: the entry raises exactly what the
  18-decimal conversion of the unlabelled balance raises, and nothing when that
  conversion succeeds. The converted entry is in the returned list at its position (when
  the other entries convert), its \<^verbatim>\<open>"currency"\<close> is whatever the raw entry had (none is
  added), and for a wire value of less than \<open>10 ^ 28\<close> wei in magnitude its amount is the
  wire value, cut to whole wei, over \<open>10 ^ 18\<close>.
\<close>

theorem unknown_market_id_passes:
  assumes "int_of_string market_id = Inr m"
    and "m \<noteq> MARKET_ETH env" "m \<noteq> MARKET_SAI env" "m \<noteq> MARKET_USDC env" "m \<noteq> MARKET_DAI env"
  shows "balance_entry env market_id balance = convert_balance_to_wad balance 18
         \<and> (\<forall>b. convert_balance_to_wad balance 18 = Inr b \<longrightarrow>
                py_getitem b ''currency'' = py_getitem balance ''currency''
                \<and> (\<forall>before after bs1 bs2.
                      py_map (\<lambda>kv. balance_entry env (fst kv) (snd kv)) before = Inr bs1 \<longrightarrow>
                      py_map (\<lambda>kv. balance_entry env (fst kv) (snd kv)) after = Inr bs2 \<longrightarrow>
                      balances_to_list env (PDict (before @ (market_id, balance) # after))
                        = Inr (bs1 @ b # bs2)))
         \<and> (py_getitem balance ''wei'' = Inr w \<and> py_float w = Inr (Finite x) \<and> \<bar>trunc x\<bar> < 10 ^ 28 \<longrightarrow>
                (\<exists>b. convert_balance_to_wad balance 18 = Inr b
                     \<and> py_getitem b ''wad'' = Inr (PWad (Wad (trunc x)))))"
proof (intro conjI allI impI)
  show entry: "balance_entry env market_id balance = convert_balance_to_wad balance 18"
    using assms by (simp add: balance_entry_def py_bind_def)
  {
    fix b
    assume b: "convert_balance_to_wad balance 18 = Inr b"
    then obtain wd where "py_setitem balance ''wad'' (PWad wd) = Inr b"
      by (auto simp: convert_balance_to_wad_def py_bind_Inr_iff Let_def)
    then show "py_getitem b ''currency'' = py_getitem balance ''currency''"
      using setitem_lookup by simp
    fix before after bs1 bs2
    assume "py_map (\<lambda>kv. balance_entry env (fst kv) (snd kv)) before = Inr bs1"
      and "py_map (\<lambda>kv. balance_entry env (fst kv) (snd kv)) after = Inr bs2"
    then have "py_map (\<lambda>kv. balance_entry env (fst kv) (snd kv))
                 (before @ (market_id, balance) # after) = Inr (bs1 @ b # bs2)"
      using entry b by (intro py_map_append) simp_all
    then show "balances_to_list env (PDict (before @ (market_id, balance) # after))
                 = Inr (bs1 @ b # bs2)"
      by (simp add: balances_to_list_def py_items_def py_bind_def)
  }
  assume w: "py_getitem balance ''wei'' = Inr w \<and> py_float w = Inr (Finite x) \<and> \<bar>trunc x\<bar> < 10 ^ 28"
  then obtain kvs where kvs: "balance = PDict kvs"
    by (cases balance) (auto simp: py_getitem_def)
  from w have c: "convert_balance_to_wad balance 18
                   = py_setitem balance ''wad'' (PWad (Wad (trunc x * 10 ^ (if (18::int) = 6 then 12 else 0))))"
    by (intro convert_balance_small) auto
  define b where "b = PDict (dict_set kvs ''wad'' (PWad (Wad (trunc x))))"
  have s: "py_setitem balance ''wad'' (PWad (Wad (trunc x))) = Inr b"
    by (simp add: py_setitem_def kvs b_def)
  have "convert_balance_to_wad balance 18 = Inr b" using c s by simp
  moreover have "py_getitem b ''wad'' = Inr (PWad (Wad (trunc x)))"
    using setitem_lookup[OF s] by simp
  ultimately show "\<exists>b. convert_balance_to_wad balance 18 = Inr b
                     \<and> py_getitem b ''wad'' = Inr (PWad (Wad (trunc x)))"
    by blast
qed

theorem unknown_market_id_passes_witness:
  "balance_entry demo_env ''7'' (PDict [(''wei'', PStr ''1000000000000000000'')])
     = Inr (PDict [(''wei'', PStr ''1000000000000000000''), (''wad'', PWad (Wad (10 ^ 18)))])
   \<and> py_getitem (PDict [(''wei'', PStr ''1000000000000000000''), (''wad'', PWad (Wad (10 ^ 18)))])
       ''currency'' = Inl KeyError
   \<and> balances_to_list demo_env (PDict [(''7'', PDict [(''wei'', PStr ''1000000000000000000'')])])
       = Inr [PDict [(''wei'', PStr ''1000000000000000000''), (''wad'', PWad (Wad (10 ^ 18)))]]"
  using unknown_market_id_passes
      [of "''7''" 7 demo_env "PDict [(''wei'', PStr ''1000000000000000000'')]"
          "PStr ''1000000000000000000''" "10 ^ 18"]
    int_of_string_7 convert_demo_7
  apply (simp add: demo_env_def py_getitem_def)
  apply (elim conjE)
  apply (drule spec[where x = "[]"])
  apply (drule spec[where x = "[]"])
  apply simp
  done

text \<open>
  C3. Balance conversion keeps the sign and uses the asset's decimal count. On the
  6-decimal USDC market a wire balance of \<open>-1000000\<close> wei becomes the negative amount
  \<open>-1\<close>, that is \<open>-1000000 / 10 ^ 6\<close> (the mwei scale, not \<open>10 ^ 18\<close>), and the entry is
  labelled USDC. For every balance entry whose wire value is a whole number \<open>n\<close> of wei
  (an int, a float, or a numeral string that denotes \<open>n\<close>) and that converts, the derived
  amount is negative if and only if \<open>n\<close> is negative; when \<open>n\<close> is below \<open>2 ^ 53\<close> in
  magnitude the amount is exactly \<open>n / 10 ^ 6\<close> on the USDC market and \<open>n / 10 ^ 18\<close> on
  every other.
\<close>

theorem balance_sign_and_scale:
  "(int_of_string market_id = Inr (MARKET_USDC env)
      \<and> MARKET_USDC env \<noteq> MARKET_ETH env \<and> MARKET_USDC env \<noteq> MARKET_SAI env \<longrightarrow>
      balance_entry env market_id (PDict [(''wei'', PStr ''-1000000'')])
        = Inr (PDict [(''wei'', PStr ''-1000000''), (''currency'', PStr ''USDC''),
                      (''wad'', PWad (Wad (- (10 ^ 18))))])
      \<and> wad_value (Wad (- (10 ^ 18))) = - 1000000 / 10 ^ 6)
   \<and> (py_getitem balance ''wei'' = Inr w
        \<and> (w = PInt n \<or> w = PFloat (Finite (of_int n))
             \<or> (\<exists>s. w = PStr s \<and> decimal_value s = Some (of_int n)))
        \<and> balance_entry env market_id balance = Inr b \<longrightarrow>
        (\<exists>a. py_getitem b ''wad'' = Inr (PWad a) \<and> (wad_value a < 0 \<longleftrightarrow> n < 0))
        \<and> (\<bar>n\<bar> < 2 ^ 53 \<longrightarrow>
             (\<exists>a. py_getitem b ''wad'' = Inr (PWad a)
                  \<and> wad_value a
                      = of_int n / (if int_of_string market_id = Inr (MARKET_USDC env)
                                       \<and> MARKET_USDC env \<noteq> MARKET_ETH env
                                       \<and> MARKET_USDC env \<noteq> MARKET_SAI env
                                    then 10 ^ 6 else 10 ^ 18))))"
proof (intro conjI impI)
  assume a: "int_of_string market_id = Inr (MARKET_USDC env)
      \<and> MARKET_USDC env \<noteq> MARKET_ETH env \<and> MARKET_USDC env \<noteq> MARKET_SAI env"
  then show "balance_entry env market_id (PDict [(''wei'', PStr ''-1000000'')])
        = Inr (PDict [(''wei'', PStr ''-1000000''), (''currency'', PStr ''USDC''),
                      (''wad'', PWad (Wad (- (10 ^ 18))))])"
    using convert_usdc_example by (simp add: balance_entry_def py_bind_def py_setitem_def)
  show "wad_value (Wad (- (10 ^ 18))) = - 1000000 / 10 ^ 6" by simp
next
  assume h: "py_getitem balance ''wei'' = Inr w
        \<and> (w = PInt n \<or> w = PFloat (Finite (of_int n))
             \<or> (\<exists>s. w = PStr s \<and> decimal_value s = Some (of_int n)))
        \<and> balance_entry env market_id balance = Inr b"
  then have wei: "py_getitem balance ''wei'' = Inr w"
    and whole: "w = PInt n \<or> w = PFloat (Finite (of_int n))
                  \<or> (\<exists>s. w = PStr s \<and> decimal_value s = Some (of_int n))"
    and entry: "balance_entry env market_id balance = Inr b"
    by blast+
  from wei entry obtain x where x: "py_float w = Inr (Finite x)" by (rule balance_entry_wire)
  with wei entry obtain k where k: "py_getitem b ''wad'' = Inr (PWad (Wad k))" "k < 0 \<longleftrightarrow> x \<le> - 1"
    using balance_entry_sign by blast
  have "x \<le> - 1 \<longleftrightarrow> n < 0" using whole x by (rule whole_wire_float)
  moreover have "wad_value (Wad k) < 0 \<longleftrightarrow> k < 0" by (simp add: divide_less_0_iff)
  ultimately show "\<exists>a. py_getitem b ''wad'' = Inr (PWad a) \<and> (wad_value a < 0 \<longleftrightarrow> n < 0)"
    using k by blast
  assume small: "\<bar>n\<bar> < 2 ^ 53"
  define usdc where "usdc \<longleftrightarrow> int_of_string market_id = Inr (MARKET_USDC env)
                                       \<and> MARKET_USDC env \<noteq> MARKET_ETH env
                                       \<and> MARKET_USDC env \<noteq> MARKET_SAI env"
  from entry obtain m where m: "int_of_string market_id = Inr m"
    unfolding balance_entry_def by (auto simp: py_bind_Inr_iff)
  have u: "usdc \<longleftrightarrow> m = MARKET_USDC env \<and> m \<noteq> MARKET_ETH env \<and> m \<noteq> MARKET_SAI env"
    unfolding usdc_def m by auto
  have labelled: "\<exists>d b'. py_getitem b' ''wei'' = Inr w \<and> convert_balance_to_wad b' d = Inr b
                \<and> (d = 6 \<longleftrightarrow> usdc)"
    if "py_bind (py_setitem balance ''currency'' v) (\<lambda>c. convert_balance_to_wad c e) = Inr b"
      and "e = 6 \<longleftrightarrow> usdc" for v e
  proof -
    from that(1) obtain c where c: "py_setitem balance ''currency'' v = Inr c"
      "convert_balance_to_wad c e = Inr b"
      by (auto simp: py_bind_Inr_iff)
    have "py_getitem c ''wei'' = Inr w" using balance_entry_wei[OF c(1)] wei by simp
    with c(2) that(2) show ?thesis by blast
  qed
  have "\<exists>d b'. py_getitem b' ''wei'' = Inr w \<and> convert_balance_to_wad b' d = Inr b
                \<and> (d = 6 \<longleftrightarrow> usdc)"
  proof -
    consider (eth) "m = MARKET_ETH env"
      | (sai) "m \<noteq> MARKET_ETH env" "m = MARKET_SAI env"
      | (usdc) "m \<noteq> MARKET_ETH env" "m \<noteq> MARKET_SAI env" "m = MARKET_USDC env"
      | (dai) "m \<noteq> MARKET_ETH env" "m \<noteq> MARKET_SAI env" "m \<noteq> MARKET_USDC env"
          "m = MARKET_DAI env"
      | (other) "m \<noteq> MARKET_ETH env" "m \<noteq> MARKET_SAI env" "m \<noteq> MARKET_USDC env"
          "m \<noteq> MARKET_DAI env"
      by blast
    then show ?thesis
    proof cases
      case eth
      then have "py_bind (py_setitem balance ''currency'' (PStr ''ETH''))
                   (\<lambda>c. convert_balance_to_wad c 18) = Inr b"
        using entry by (simp add: balance_entry_def m py_bind_def)
      moreover have "(18::int) = 6 \<longleftrightarrow> usdc" using eth u by simp
      ultimately show ?thesis by (rule labelled)
    next
      case sai
      then have "py_bind (py_setitem balance ''currency'' (PStr ''SAI''))
                   (\<lambda>c. convert_balance_to_wad c 18) = Inr b"
        using entry by (simp add: balance_entry_def m py_bind_def)
      moreover have "(18::int) = 6 \<longleftrightarrow> usdc" using sai u by simp
      ultimately show ?thesis by (rule labelled)
    next
      case usdc
      then have "py_bind (py_setitem balance ''currency'' (PStr ''USDC''))
                   (\<lambda>c. convert_balance_to_wad c 6) = Inr b"
        using entry by (simp add: balance_entry_def m py_bind_def)
      moreover have "(6::int) = 6 \<longleftrightarrow> usdc" using usdc u by simp
      ultimately show ?thesis by (rule labelled)
    next
      case dai
      then have "py_bind (py_setitem balance ''currency'' (PStr ''DAI''))
                   (\<lambda>c. convert_balance_to_wad c 18) = Inr b"
        using entry by (simp add: balance_entry_def m py_bind_def)
      moreover have "(18::int) = 6 \<longleftrightarrow> usdc" using dai u by simp
      ultimately show ?thesis by (rule labelled)
    next
      case other
      then have "convert_balance_to_wad balance 18 = Inr b"
        using entry by (simp add: balance_entry_def m py_bind_def)
      moreover have "(18::int) = 6 \<longleftrightarrow> usdc" using other u by simp
      ultimately show ?thesis using wei by blast
    qed
  qed
  then obtain d b' where d: "py_getitem b' ''wei'' = Inr w" "convert_balance_to_wad b' d = Inr b"
    "d = 6 \<longleftrightarrow> usdc" by blast
  have look: "py_getitem b ''wad'' = Inr (PWad (Wad (n * 10 ^ (if d = 6 then 12 else 0))))"
    using d(1) whole small d(2) by (rule convert_balance_whole)
  have "wad_value (Wad (n * 10 ^ (if d = 6 then 12 else 0)))
          = of_int n / (if usdc then 10 ^ 6 else 10 ^ 18)"
    using d(3) by simp
  with look show "\<exists>a. py_getitem b ''wad'' = Inr (PWad a)
                  \<and> wad_value a
                      = of_int n / (if int_of_string market_id = Inr (MARKET_USDC env)
                                       \<and> MARKET_USDC env \<noteq> MARKET_ETH env
                                       \<and> MARKET_USDC env \<noteq> MARKET_SAI env
                                    then 10 ^ 6 else 10 ^ 18)"
    unfolding usdc_def by blast
qed

theorem balance_sign_and_scale_witness:
  "balance_entry demo_env ''2'' (PDict [(''wei'', PStr ''-1000000'')])
     = Inr (PDict [(''wei'', PStr ''-1000000''), (''currency'', PStr ''USDC''),
                   (''wad'', PWad (Wad (- (10 ^ 18))))])
   \<and> wad_value (Wad (- (10 ^ 18))) < 0
   \<and> wad_value (Wad (- (10 ^ 18))) = - 1000000 / 10 ^ 6"
  using balance_sign_and_scale
      [of "''2''" demo_env "PDict [(''wei'', PStr ''-1000000'')]" "PStr ''-1000000''"
          "- 1000000"
          "PDict [(''wei'', PStr ''-1000000''), (''currency'', PStr ''USDC''),
                  (''wad'', PWad (Wad (- (10 ^ 18))))]"]
    int_of_string_2 decimal_value_m1e6
  by (simp add: demo_env_def py_getitem_def)
subsection \<open>Amounts and prices\<close>







subsection \<open>Placing an order\<close>




end
